theory Spec2Isabelle
  imports Main "HOL-Library.Word"
begin

unbundle bit_operations_syntax

section \<open>JavaScript values\<close>

text \<open>
  A JavaScript string is a sequence of UTF-16 code units; \<open>length\<close>, indexing,
  \<open>charCodeAt\<close> and regular expressions without the \<open>u\<close> flag all work on code
  units. \<open>js\<close> turns an ASCII literal into such a string.
\<close>

type_synonym jsstring = "16 word list"
type_synonym byte = "8 word"

definition js :: "string \<Rightarrow> jsstring" where
  "js s = map of_char s"

text \<open>
  The values a parameter of a recipe step can hold: they come from the form fields of the
  page (text fields give strings, number fields give numbers or the empty string,
  checkboxes give booleans) or from a recipe file. The Numbers of the model are the
  integers from \<open>-2^53\<close> to \<open>2^53 - 1\<close>, held as the signed value \<open>sint n\<close> of
  a 54-bit word \<open>n\<close>: each of them is a Number, and JavaScript prints each of them with
  all its decimal digits (\<open>-0\<close> prints as 0 and is falsy as 0 is). Numbers beyond this
  range, Numbers with a fractional part, the infinities and NaN are not values of the
  model. A length or a count becomes a Number by \<open>of_nat\<close>; the largest length the
  language gives a string or an array is \<open>2^53 - 1\<close>.
\<close>

type_synonym number = "54 word"

datatype jsval = Undefined | Null | Bool bool | Num number | Str jsstring

fun truthy :: "jsval \<Rightarrow> bool" where
  "truthy Undefined = False"
| "truthy Null = False"
| "truthy (Bool b) = b"
| "truthy (Num n) = (n \<noteq> 0)"
| "truthy (Str s) = (s \<noteq> [])"

text \<open>A parameter object: own properties by name; a missing property reads as undefined.\<close>

type_synonym params = "(string \<times> jsval) list"

definition getParam :: "params \<Rightarrow> string \<Rightarrow> jsval" where
  "getParam ps n = (case map_of ps n of None \<Rightarrow> Undefined | Some v \<Rightarrow> v)"

subsection \<open>Numbers to strings\<close>

definition digitChar :: "nat \<Rightarrow> 16 word" where
  "digitChar d = (if d < 10 then of_nat (48 + d) else of_nat (87 + d))"

text \<open>\<open>n.toString(r)\<close> for a non-negative integer \<open>n\<close> and a radix \<open>2 \<le> r \<le> 36\<close>.\<close>

function natToString :: "nat \<Rightarrow> nat \<Rightarrow> jsstring" where
  "natToString r n =
     (if n < r \<or> r < 2 then [digitChar n]
      else natToString r (n div r) @ [digitChar (n mod r)])"
  by pat_completeness auto
termination
  by (relation "measure (\<lambda>(r, n). n)") auto

declare natToString.simps [simp del]

text \<open>The decimal digits of an integer, after a minus sign when it is negative.\<close>

definition decimal :: "int \<Rightarrow> jsstring" where
  "decimal n =
     (if n < 0 then js ''-'' @ natToString 10 (nat (- n)) else natToString 10 (nat n))"

text \<open>\<open>String(n)\<close> for a Number of the model.\<close>

definition numToString :: "number \<Rightarrow> jsstring" where
  "numToString n = decimal (sint n)"

text \<open>\<open>s.padStart(n, c)\<close> for a one-character fill string.\<close>

definition padStart :: "nat \<Rightarrow> 16 word \<Rightarrow> jsstring \<Rightarrow> jsstring" where
  "padStart n c s = replicate (n - length s) c @ s"

text \<open>\<open>String(v)\<close>.\<close>

fun toString :: "jsval \<Rightarrow> jsstring" where
  "toString Undefined = js ''undefined''"
| "toString Null = js ''null''"
| "toString (Bool b) = (if b then js ''true'' else js ''false'')"
| "toString (Num n) = numToString n"
| "toString (Str s) = s"

subsection \<open>Character classes\<close>

text \<open>
  The class \<open>\s\<close> of regular expressions: white space and line terminators. The same
  set is what \<open>trim\<close> strips and what \<open>parseInt\<close> skips in front of a number.
\<close>

definition isSpace :: "16 word \<Rightarrow> bool" where
  "isSpace c =
     (c \<in> set [0x09, 0x0A, 0x0B, 0x0C, 0x0D, 0x20, 0xA0, 0x1680, 0x2028, 0x2029,
                0x202F, 0x205F, 0x3000, 0xFEFF]
      \<or> (0x2000 \<le> c \<and> c \<le> 0x200A))"

definition isUpperAZ :: "16 word \<Rightarrow> bool" where
  "isUpperAZ c = (0x41 \<le> c \<and> c \<le> 0x5A)"

definition isLowerAZ :: "16 word \<Rightarrow> bool" where
  "isLowerAZ c = (0x61 \<le> c \<and> c \<le> 0x7A)"

definition isDigit09 :: "16 word \<Rightarrow> bool" where
  "isDigit09 c = (0x30 \<le> c \<and> c \<le> 0x39)"

text \<open>\<open>[a-zA-Z]\<close>\<close>

definition isLetter :: "16 word \<Rightarrow> bool" where
  "isLetter c = (isLowerAZ c \<or> isUpperAZ c)"

text \<open>\<open>[0-9A-Fa-f]\<close>\<close>

definition isHexDigit :: "16 word \<Rightarrow> bool" where
  "isHexDigit c =
     (isDigit09 c \<or> (0x41 \<le> c \<and> c \<le> 0x46) \<or> (0x61 \<le> c \<and> c \<le> 0x66))"

text \<open>\<open>[A-Za-z0-9+/]\<close>\<close>

definition isBase64Char :: "16 word \<Rightarrow> bool" where
  "isBase64Char c = (isUpperAZ c \<or> isLowerAZ c \<or> isDigit09 c \<or> c = 0x2B \<or> c = 0x2F)"

subsection \<open>Arithmetic and character codes\<close>

text \<open>
  The remainder operator \<open>%\<close> takes the sign of the dividend;
  \<open>String.fromCharCode\<close> keeps the low 16 bits of its argument.
\<close>

definition jsRem :: "int \<Rightarrow> int \<Rightarrow> int" where
  "jsRem a b = sgn a * (\<bar>a\<bar> mod \<bar>b\<bar>)"

definition charCode :: "16 word \<Rightarrow> int" where
  "charCode c = uint c"

definition fromCharCode :: "int \<Rightarrow> 16 word" where
  "fromCharCode n = word_of_int n"

subsection \<open>parseInt\<close>

text \<open>
  \<open>parseInt(string, radix)\<close>, with radix 0 for a call without one: leading white
  space is skipped, a sign is read, a prefix 0x or 0X selects radix 16 (when the radix is
  absent or 16), and the longest run of digits of the radix is the value; what follows
  the digits is ignored. No digit at all gives NaN, which is \<open>None\<close> here. The
  result is exact here where JavaScript rounds to a double; the code only compares it
  with small integers, which rounding does not change.
\<close>

definition digitVal :: "16 word \<Rightarrow> nat" where
  "digitVal c =
     (if isDigit09 c then unat c - 48
      else if isLowerAZ c then unat c - 87
      else if isUpperAZ c then unat c - 55
      else 36)"

definition digitsValue :: "nat \<Rightarrow> jsstring \<Rightarrow> nat" where
  "digitsValue r z = foldl (\<lambda>acc c. acc * r + digitVal c) 0 z"

definition parseInt :: "jsstring \<Rightarrow> nat \<Rightarrow> int option" where
  "parseInt str radix =
     (let s0 = dropWhile isSpace str;
          neg = (take 1 s0 = js ''-'');
          s1 = (if take 1 s0 = js ''+'' \<or> take 1 s0 = js ''-'' then drop 1 s0 else s0);
          hex = ((radix = 0 \<or> radix = 16) \<and> (take 2 s1 = js ''0x'' \<or> take 2 s1 = js ''0X''));
          r = (if hex then 16 else if radix = 0 then 10 else radix);
          s2 = (if hex then drop 2 s1 else s1);
          z = takeWhile (\<lambda>c. digitVal c < r) s2
      in if radix \<noteq> 0 \<and> (radix < 2 \<or> 36 < radix) then None
         else if z = [] then None
         else Some ((if neg then - 1 else 1) * int (digitsValue r z)))"

text \<open>\<open>parseInt(v) || d\<close>: NaN and 0 are falsy, so both give the default.\<close>

definition parseIntOr :: "jsval \<Rightarrow> int \<Rightarrow> int" where
  "parseIntOr v d =
     (case parseInt (toString v) 0 of None \<Rightarrow> d | Some n \<Rightarrow> if n = 0 then d else n)"

subsection \<open>Iterating a string\<close>

text \<open>
  \<open>for (let char of text)\<close> and \<open>new Set(text)\<close> go through a string by code points:
  a high surrogate followed by a low surrogate is one element of two code units, every
  other code unit is an element of its own.
\<close>

definition isHighSurrogate :: "16 word \<Rightarrow> bool" where
  "isHighSurrogate c = (0xD800 \<le> c \<and> c \<le> 0xDBFF)"

definition isLowSurrogate :: "16 word \<Rightarrow> bool" where
  "isLowSurrogate c = (0xDC00 \<le> c \<and> c \<le> 0xDFFF)"

fun codePoints :: "jsstring \<Rightarrow> jsstring list" where
  "codePoints (c # d # s) =
     (if isHighSurrogate c \<and> isLowSurrogate d then [c, d] # codePoints s
      else [c] # codePoints (d # s))"
| "codePoints [c] = [[c]]"
| "codePoints [] = []"

text \<open>\<open>array.join(sep)\<close> on an array of strings.\<close>

fun join :: "jsstring \<Rightarrow> jsstring list \<Rightarrow> jsstring" where
  "join sep [] = []"
| "join sep [x] = x"
| "join sep (x # y # ys) = x @ sep @ join sep (y # ys)"

subsection \<open>Errors\<close>

text \<open>
  What a \<open>throw\<close> carries: \<open>Error m\<close> is \<open>new Error(m)\<close> thrown by the code;
  \<open>TypeError site\<close> is the TypeError the engine raises at the named expression (a call
  of a method on \<open>null\<close> or \<open>undefined\<close>, a call of something that is not a
  function). The text of such a message differs between engines and is taken from the
  platform.
\<close>

datatype error = Error jsstring | TypeError string

type_synonym 'a result = "error + 'a"

section \<open>The platform\<close>

text \<open>
  The primitives the code takes from the browser, as parameters of the model:
  \<open>TextEncoder.encode\<close> and \<open>TextDecoder.decode\<close> (UTF-8), \<open>crypto.subtle.digest\<close>
  (which gives the digest bytes or rejects with an error), \<open>atob\<close> (\<open>None\<close> when it
  throws), the case mappings of strings that hold characters beyond ASCII, and the message
  texts of the engine's TypeErrors. \<open>otherFn\<close> stands for the transforms of the
  catalogue that are not embedded below.
\<close>

record platform =
  textEncode :: "jsstring \<Rightarrow> byte list"
  textDecode :: "byte list \<Rightarrow> jsstring"
  digest :: "jsstring \<Rightarrow> byte list \<Rightarrow> byte list result"
  atob :: "jsstring \<Rightarrow> jsstring option"
  upperBeyondAscii :: "jsstring \<Rightarrow> jsstring"
  lowerBeyondAscii :: "jsstring \<Rightarrow> jsstring"
  engineMessage :: "string \<Rightarrow> jsstring"
  otherFn :: "string \<Rightarrow> jsstring \<Rightarrow> params \<Rightarrow> jsstring result"

text \<open>\<open>error.message\<close>\<close>

fun message :: "platform \<Rightarrow> error \<Rightarrow> jsstring" where
  "message P (Error m) = m"
| "message P (TypeError site) = engineMessage P site"

text \<open>
  \<open>toUpperCase\<close> and \<open>toLowerCase\<close>: on a string of ASCII characters they map the
  26 letters and leave the rest; other strings go to the platform's Unicode tables.
\<close>

definition isAscii :: "16 word \<Rightarrow> bool" where
  "isAscii c = (c < 0x80)"

definition asciiUpper :: "16 word \<Rightarrow> 16 word" where
  "asciiUpper c = (if isLowerAZ c then c - 0x20 else c)"

definition asciiLower :: "16 word \<Rightarrow> 16 word" where
  "asciiLower c = (if isUpperAZ c then c + 0x20 else c)"

definition toUpperCase :: "platform \<Rightarrow> jsstring \<Rightarrow> jsstring" where
  "toUpperCase P s = (if list_all isAscii s then map asciiUpper s else upperBeyondAscii P s)"

definition toLowerCase :: "platform \<Rightarrow> jsstring \<Rightarrow> jsstring" where
  "toLowerCase P s = (if list_all isAscii s then map asciiLower s else lowerBeyondAscii P s)"

section \<open>Encodings (encoding.js)\<close>

text \<open>\<open>b.toString(16).padStart(2, '0')\<close> for a byte.\<close>

definition hexByte :: "byte \<Rightarrow> jsstring" where
  "hexByte b = padStart 2 (of_char CHR ''0'') (natToString 16 (unat b))"

text \<open>\<open>toHex\<close>: \<open>params.separator || ''\<close> is the separator given to \<open>join\<close>.\<close>

definition toHex :: "platform \<Rightarrow> jsstring \<Rightarrow> params \<Rightarrow> jsstring result" where
  "toHex P input ps =
     (let bytes = textEncode P input;
          separator = (if truthy (getParam ps ''separator'') then getParam ps ''separator''
                       else Str [])
      in Inr (join (toString separator) (map hexByte bytes)))"

text \<open>The class \<open>[\s:,-]\<close> that \<open>fromHex\<close> removes.\<close>

definition hexSeparator :: "16 word \<Rightarrow> bool" where
  "hexSeparator c = (isSpace c \<or> c = 0x3A \<or> c = 0x2C \<or> c = 0x2D)"

text \<open>
  \<open>cleaned.match(/.{1,2}/g)\<close>: the successive matches of one or two characters, where
  the dot matches anything but a line terminator. No match at all makes \<open>match\<close> return
  \<open>null\<close>, which is the empty list here.
\<close>

definition isLineTerminator :: "16 word \<Rightarrow> bool" where
  "isLineTerminator c = (c = 0x0A \<or> c = 0x0D \<or> c = 0x2028 \<or> c = 0x2029)"

fun matchDot12 :: "jsstring \<Rightarrow> jsstring list" where
  "matchDot12 (a # b # s) =
     (if isLineTerminator a then matchDot12 (b # s)
      else if isLineTerminator b then [a] # matchDot12 s
      else [a, b] # matchDot12 s)"
| "matchDot12 [a] = (if isLineTerminator a then [] else [[a]])"
| "matchDot12 [] = []"

text \<open>An element stored into a \<open>Uint8Array\<close>: NaN becomes 0, a number is taken modulo 256.\<close>

definition toUint8 :: "int option \<Rightarrow> byte" where
  "toUint8 v = (case v of None \<Rightarrow> 0 | Some n \<Rightarrow> word_of_int n)"

text \<open>
  \<open>fromHex\<close>. The body runs inside \<open>try\<close>; whatever it throws, its own errors and
  the TypeError of \<open>null.map\<close> alike, is caught and thrown again with the prefix
  \<open>Invalid hex string:\<close>.
\<close>

definition fromHexBody :: "platform \<Rightarrow> jsstring \<Rightarrow> jsstring result" where
  "fromHexBody P input =
     (let cleaned = filter (\<lambda>c. \<not> hexSeparator c) input
      in if length cleaned mod 2 \<noteq> 0 then Inl (Error (js ''Hex string length must be even''))
         else case matchDot12 cleaned of
                [] \<Rightarrow> Inl (TypeError ''null.map'')
              | h # hs \<Rightarrow>
                  (let bytes = map (\<lambda>h. parseInt h 16) (h # hs)
                   in if list_ex (\<lambda>b. b = None) bytes
                      then Inl (Error (js ''Invalid hex characters''))
                      else Inr (textDecode P (map toUint8 bytes))))"

definition fromHex :: "platform \<Rightarrow> jsstring \<Rightarrow> jsstring result" where
  "fromHex P input =
     (case fromHexBody P input of
        Inl e \<Rightarrow> Inl (Error (js ''Invalid hex string: '' @ message P e))
      | Inr v \<Rightarrow> Inr v)"

section \<open>Digests (hash.js)\<close>

text \<open>
  \<open>sha1\<close> wraps the digest in \<open>try\<close> and replaces any failure by its own error;
  \<open>md5\<close> has no \<open>try\<close>, so a rejection of the digest passes through. Both ask the
  platform for the algorithm named SHA-1.
\<close>

definition sha1 :: "platform \<Rightarrow> jsstring \<Rightarrow> jsstring result" where
  "sha1 P input =
     (case digest P (js ''SHA-1'') (textEncode P input) of
        Inl e \<Rightarrow> Inl (Error (js ''SHA-1 hashing failed''))
      | Inr hashArray \<Rightarrow> Inr (join [] (map hexByte hashArray)))"

definition md5 :: "platform \<Rightarrow> jsstring \<Rightarrow> jsstring result" where
  "md5 P input =
     (case digest P (js ''SHA-1'') (textEncode P input) of
        Inl e \<Rightarrow> Inl e
      | Inr hashArray \<Rightarrow> Inr (join [] (map hexByte (take 16 hashArray))))"

section \<open>Ciphers (cipher.js)\<close>

text \<open>
  \<open>String(input).replace(/[a-zA-Z]/g, f)\<close>: every ASCII letter is replaced by what the
  callback returns for it, here always a string of one code unit.
\<close>

definition replaceLetters :: "(16 word \<Rightarrow> 16 word) \<Rightarrow> jsstring \<Rightarrow> jsstring" where
  "replaceLetters f input = map (\<lambda>c. if isLetter c then f c else c) input"

text \<open>\<open>c <= 'Z' ? 65 : 97\<close>\<close>

definition letterBase :: "16 word \<Rightarrow> int" where
  "letterBase c = (if c \<le> 0x5A then 65 else 97)"

definition rot13 :: "jsstring \<Rightarrow> jsstring" where
  "rot13 input =
     replaceLetters
       (\<lambda>c. fromCharCode (letterBase c + jsRem (charCode c - letterBase c + 13) 26)) input"

definition caesar :: "jsstring \<Rightarrow> params \<Rightarrow> jsstring result" where
  "caesar input ps =
     (let shift = parseIntOr (getParam ps ''shift'') 3
      in if shift < 1 \<or> shift > 25 then Inl (Error (js ''Shift must be between 1 and 25''))
         else Inr (replaceLetters
                (\<lambda>c. fromCharCode (letterBase c + jsRem (charCode c - letterBase c + shift) 26))
                input))"

definition caesarDecrypt :: "jsstring \<Rightarrow> params \<Rightarrow> jsstring result" where
  "caesarDecrypt input ps =
     (let shift = parseIntOr (getParam ps ''shift'') 3
      in if shift < 1 \<or> shift > 25 then Inl (Error (js ''Shift must be between 1 and 25''))
         else Inr (replaceLetters
                (\<lambda>c. fromCharCode
                        (letterBase c + jsRem (charCode c - letterBase c - shift + 26) 26))
                input))"

subsection \<open>Rail fence\<close>

text \<open>
  The zig-zag: \<open>rail += direction; if (rail === 0 || rail === rails - 1) direction =
  -direction\<close>.
\<close>

definition turn :: "int \<Rightarrow> int \<Rightarrow> int \<Rightarrow> int" where
  "turn rails rail direction = (if rail = 0 \<or> rail = rails - 1 then - direction else direction)"

text \<open>
  The loop of \<open>railFence\<close> over the characters of the text (its code points):
  \<open>fence[rail].push(char)\<close>. Were \<open>rail\<close> outside the fence, \<open>fence[rail]\<close>
  would be \<open>undefined\<close> and the call of \<open>push\<close> a TypeError.
\<close>

fun fenceLoop ::
  "int \<Rightarrow> jsstring list \<Rightarrow> jsstring list list \<Rightarrow> int \<Rightarrow> int \<Rightarrow> jsstring list list result"
where
  "fenceLoop rails [] fence rail direction = Inr fence"
| "fenceLoop rails (ch # text) fence rail direction =
     (if rail < 0 \<or> int (length fence) \<le> rail then Inl (TypeError ''undefined.push'')
      else fenceLoop rails text (fence[nat rail := fence ! nat rail @ [ch]])
             (rail + direction) (turn rails (rail + direction) direction))"

definition railFence :: "jsstring \<Rightarrow> params \<Rightarrow> jsstring result" where
  "railFence input ps =
     (let rails = parseIntOr (getParam ps ''rails'') 3
      in if rails < 2 \<or> rails > 10
         then Inl (Error (js ''Number of rails must be between 2 and 10''))
         else if int (length input) < rails then Inr input
         else case fenceLoop rails (codePoints input) (replicate (nat rails) []) 0 1 of
                Inl e \<Rightarrow> Inl e
              | Inr fence \<Rightarrow> Inr (join [] (concat fence)))"

text \<open>
  \<open>railFenceDecrypt\<close>, first loop: the pattern of rail numbers, one for each code unit
  of the text.
\<close>

fun patternLoop :: "int \<Rightarrow> nat \<Rightarrow> int \<Rightarrow> int \<Rightarrow> int list" where
  "patternLoop rails 0 rail direction = []"
| "patternLoop rails (Suc n) rail direction =
     rail # patternLoop rails n (rail + direction) (turn rails (rail + direction) direction)"

text \<open>\<open>text[i]\<close>: a string of one code unit, or \<open>undefined\<close> beyond the end.\<close>

definition textAt :: "jsstring \<Rightarrow> nat \<Rightarrow> jsval" where
  "textAt text i = (if i < length text then Str [text ! i] else Undefined)"

text \<open>
  Second loop: for each rail \<open>r\<close> in turn, every position of the pattern that holds
  \<open>r\<close> takes the next character of the text, \<open>fence[r].push(text[index++])\<close>. The
  inner loop returns the row and the index; the outer loop runs over the rails
  \<open>0, ..., rails - 1\<close>, which are all rows of the fence.
\<close>

fun fillRow :: "jsstring \<Rightarrow> int \<Rightarrow> int list \<Rightarrow> jsval list \<Rightarrow> nat \<Rightarrow> jsval list \<times> nat" where
  "fillRow text r [] row index = (row, index)"
| "fillRow text r (p # pattern) row index =
     (if p = r then fillRow text r pattern (row @ [textAt text index]) (Suc index)
      else fillRow text r pattern row index)"

fun fillFence ::
  "jsstring \<Rightarrow> int list \<Rightarrow> nat list \<Rightarrow> jsval list list \<Rightarrow> nat \<Rightarrow> jsval list list"
where
  "fillFence text pattern [] fence index = fence"
| "fillFence text pattern (r # rs) fence index =
     (case fillRow text (int r) pattern (fence ! r) index of
        (row, index') \<Rightarrow> fillFence text pattern rs (fence[r := row]) index')"

text \<open>
  Third loop: \<open>result += fence[rail][railIndices[rail]++]\<close>, walking the zig-zag again.
  A read beyond the end of a row gives \<open>undefined\<close>, which \<open>+=\<close> appends as the
  text undefined; a \<open>rail\<close> outside the fence makes the read a TypeError.
\<close>

fun readLoop ::
  "int \<Rightarrow> nat \<Rightarrow> jsval list list \<Rightarrow> jsstring \<Rightarrow> int \<Rightarrow> int \<Rightarrow> nat list \<Rightarrow> jsstring result"
where
  "readLoop rails 0 fence res rail direction railIndices = Inr res"
| "readLoop rails (Suc n) fence res rail direction railIndices =
     (if rail < 0 \<or> int (length fence) \<le> rail then Inl (TypeError ''undefined[index]'')
      else let row = fence ! nat rail;
               k = railIndices ! nat rail;
               v = (if k < length row then row ! k else Undefined)
           in readLoop rails n fence (res @ toString v) (rail + direction)
                (turn rails (rail + direction) direction) (railIndices[nat rail := Suc k]))"

definition railFenceDecrypt :: "jsstring \<Rightarrow> params \<Rightarrow> jsstring result" where
  "railFenceDecrypt input ps =
     (let rails = parseIntOr (getParam ps ''rails'') 3
      in if rails < 2 \<or> rails > 10
         then Inl (Error (js ''Number of rails must be between 2 and 10''))
         else if int (length input) < rails then Inr input
         else let pattern = patternLoop rails (length input) 0 1;
                  fence = fillFence input pattern [0..<nat rails] (replicate (nat rails) []) 0
              in readLoop rails (length input) fence [] 0 1 (replicate (nat rails) 0))"

subsection \<open>Substitution\<close>

text \<open>\<open>alphabet[index]\<close> for a numeric index, NaN (\<open>None\<close>) included.\<close>

definition charAt :: "jsstring \<Rightarrow> int option \<Rightarrow> jsval" where
  "charAt s i =
     (case i of None \<Rightarrow> Undefined
      | Some n \<Rightarrow> if 0 \<le> n \<and> n < int (length s) then Str [s ! nat n] else Undefined)"

text \<open>\<open>s.charCodeAt(0)\<close>, NaN on the empty string.\<close>

definition charCodeAt0 :: "jsstring \<Rightarrow> int option" where
  "charCodeAt0 s = (case s of [] \<Rightarrow> None | c # _ \<Rightarrow> Some (charCode c))"

text \<open>
  The loop of \<open>substitution\<close> over the code points of the text. \<open>/[a-z]/.test(char)\<close>
  holds when a code unit of \<open>char\<close> is a lowercase letter.
\<close>

fun substLoop :: "platform \<Rightarrow> jsstring \<Rightarrow> jsstring list \<Rightarrow> jsstring \<Rightarrow> jsstring result" where
  "substLoop P alphabet [] res = Inr res"
| "substLoop P alphabet (ch # text) res =
     (if list_ex isLowerAZ ch then
        (case charAt alphabet (map_option (\<lambda>n. n - 65) (charCodeAt0 (toUpperCase P ch))) of
           Str a \<Rightarrow> substLoop P alphabet text (res @ toLowerCase P a)
         | _ \<Rightarrow> Inl (TypeError ''undefined.toLowerCase''))
      else if list_ex isUpperAZ ch then
        substLoop P alphabet text
          (res @ toString (charAt alphabet (map_option (\<lambda>n. n - 65) (charCodeAt0 ch))))
      else substLoop P alphabet text (res @ ch))"

text \<open>\<open>new Set(alphabet).size\<close> counts the distinct code points.\<close>

definition substitution :: "platform \<Rightarrow> jsstring \<Rightarrow> params \<Rightarrow> jsstring result" where
  "substitution P input ps =
     (if \<not> truthy (getParam ps ''alphabet'')
      then Inl (Error (js ''Substitution alphabet is required''))
      else let alphabet = toUpperCase P (toString (getParam ps ''alphabet''))
           in if length alphabet \<noteq> 26 \<or> length (remdups (codePoints alphabet)) \<noteq> 26
              then Inl (Error (js ''Alphabet must contain exactly 26 unique letters''))
              else substLoop P alphabet (codePoints input) [])"

section \<open>Text (text.js)\<close>

text \<open>\<open>reverse\<close>: \<open>String(input).split('').reverse().join('')\<close>, by code units.\<close>

definition reverse :: "jsstring \<Rightarrow> jsstring" where
  "reverse input = join [] (rev (map (\<lambda>c. [c]) input))"

section \<open>Checksums (hash.js)\<close>

text \<open>
  \<open>crc32\<close>. The bitwise operators of JavaScript work on the 32-bit pattern of their
  operands, which is what a \<open>32 word\<close> is: \<open>c >>> 1\<close> is \<open>drop_bit 1 c\<close>, \<open>^\<close> is
  \<open>XOR\<close>, \<open>&\<close> is \<open>AND\<close>, and \<open>0 ^ (-1)\<close> is the word of all ones.
\<close>

definition crcStep :: "32 word \<Rightarrow> 32 word" where
  "crcStep c = (if c AND 1 \<noteq> 0 then 0xEDB88320 XOR drop_bit 1 c else drop_bit 1 c)"

text \<open>The inner loop \<open>for (k = 0; k < 8; k++)\<close>, by the number of rounds left.\<close>

primrec crcBits :: "nat \<Rightarrow> 32 word \<Rightarrow> 32 word" where
  "crcBits 0 c = c"
| "crcBits (Suc k) c = crcBits k (crcStep c)"

definition makeCRCTable :: "32 word list" where
  "makeCRCTable = map (\<lambda>n. crcBits 8 (of_nat n)) [0..<256]"

text \<open>
  \<open>crcTable[i]\<close>: an index outside the table reads \<open>undefined\<close>, which \<open>^\<close> takes
  for 0.
\<close>

definition tableAt :: "32 word list \<Rightarrow> nat \<Rightarrow> 32 word" where
  "tableAt t i = (if i < length t then t ! i else 0)"

fun crcLoop :: "32 word list \<Rightarrow> jsstring \<Rightarrow> 32 word \<Rightarrow> 32 word" where
  "crcLoop t [] crc = crc"
| "crcLoop t (ch # str) crc =
     crcLoop t str (drop_bit 8 crc XOR tableAt t (unat ((crc XOR ucast ch) AND 0xFF)))"

definition crc32 :: "jsstring \<Rightarrow> jsstring" where
  "crc32 input =
     (let crc = crcLoop makeCRCTable input (0 XOR (- 1))
      in padStart 8 (of_char CHR ''0'') (natToString 16 (unat (crc XOR (- 1)))))"

section \<open>The registry (index.js)\<close>

text \<open>
  An entry of the catalogue: its display name, its category, the schema of its parameters
  and its transform. Of a parameter the engine reads the name, the label and whether it is
  required.
\<close>

record paramSpec =
  pname :: string
  label :: string
  ptype :: string
  required :: bool

record opEntry =
  name :: jsstring
  category :: string
  params :: "paramSpec list"
  fn :: "jsstring \<Rightarrow> params \<Rightarrow> jsstring result"

definition param :: "string \<Rightarrow> string \<Rightarrow> string \<Rightarrow> bool \<Rightarrow> paramSpec" where
  "param n l t r = \<lparr>pname = n, label = l, ptype = t, required = r\<rparr>"

definition entry ::
  "string \<Rightarrow> jsstring \<Rightarrow> string \<Rightarrow> paramSpec list \<Rightarrow> (jsstring \<Rightarrow> params \<Rightarrow> jsstring result)
   \<Rightarrow> jsstring \<times> opEntry"
where
  "entry key nm cat ps f = (js key, \<lparr>name = nm, category = cat, params = ps, fn = f\<rparr>)"

text \<open>
  The four groups, merged in the order encoding, text, hash, cipher. The transforms
  embedded above stand at their keys; the others are \<open>otherFn\<close> of the platform.
\<close>

definition EncodingOperations :: "platform \<Rightarrow> (jsstring \<times> opEntry) list" where
  "EncodingOperations P =
    [entry ''toBase64'' (js ''To Base64'') ''encoding'' [] (otherFn P ''toBase64''),
     entry ''fromBase64'' (js ''From Base64'') ''encoding'' [] (otherFn P ''fromBase64''),
     entry ''toBase32'' (js ''To Base32'') ''encoding'' [] (otherFn P ''toBase32''),
     entry ''fromBase32'' (js ''From Base32'') ''encoding'' [] (otherFn P ''fromBase32''),
     entry ''toHex'' (js ''To Hex'') ''encoding''
       [param ''separator'' ''Separator'' ''text'' False] (toHex P),
     entry ''fromHex'' (js ''From Hex'') ''encoding'' [] (\<lambda>input ps. fromHex P input),
     entry ''urlEncode'' (js ''URL Encode'') ''encoding'' [] (otherFn P ''urlEncode''),
     entry ''urlDecode'' (js ''URL Decode'') ''encoding'' [] (otherFn P ''urlDecode''),
     entry ''toBinary'' (js ''To Binary'') ''encoding''
       [param ''separator'' ''Separator'' ''text'' False] (otherFn P ''toBinary''),
     entry ''fromBinary'' (js ''From Binary'') ''encoding'' [] (otherFn P ''fromBinary'')]"

definition TextOperations :: "platform \<Rightarrow> (jsstring \<times> opEntry) list" where
  "TextOperations P =
    [entry ''toUpper'' (js ''To Uppercase'') ''text'' [] (otherFn P ''toUpper''),
     entry ''toLower'' (js ''To Lowercase'') ''text'' [] (otherFn P ''toLower''),
     entry ''toTitleCase'' (js ''To Title Case'') ''text'' [] (otherFn P ''toTitleCase''),
     entry ''swapCase'' (js ''Swap Case'') ''text'' [] (otherFn P ''swapCase''),
     entry ''reverse'' (js ''Reverse'') ''text'' [] (\<lambda>input ps. Inr (reverse input)),
     entry ''trim'' (js ''Trim Whitespace'') ''text'' [] (otherFn P ''trim''),
     entry ''removeSpaces'' (js ''Remove Spaces'') ''text'' [] (otherFn P ''removeSpaces''),
     entry ''normalizeWhitespace'' (js ''Normalize Whitespace'') ''text'' []
       (otherFn P ''normalizeWhitespace''),
     entry ''removeLineBreaks'' (js ''Remove Line Breaks'') ''text'' []
       (otherFn P ''removeLineBreaks''),
     entry ''addLineNumbers'' (js ''Add Line Numbers'') ''text''
       [param ''start'' ''Start From'' ''number'' False,
        param ''padding'' ''Padding'' ''number'' False] (otherFn P ''addLineNumbers''),
     entry ''sortLines'' (js ''Sort Lines'') ''text''
       [param ''order'' ''Order'' ''select'' False] (otherFn P ''sortLines''),
     entry ''removeDuplicateLines'' (js ''Remove Duplicate Lines'') ''text'' []
       (otherFn P ''removeDuplicateLines''),
     entry ''findReplace'' (js ''Find & Replace'') ''text''
       [param ''find'' ''Find'' ''text'' True,
        param ''replace'' ''Replace With'' ''text'' False,
        param ''caseSensitive'' ''Case Sensitive'' ''checkbox'' False]
       (otherFn P ''findReplace''),
     entry ''countCharacters'' (js ''Count Characters'') ''text'' []
       (otherFn P ''countCharacters''),
     entry ''extractEmails'' (js ''Extract Emails'') ''text'' [] (otherFn P ''extractEmails''),
     entry ''extractUrls'' (js ''Extract URLs'') ''text'' [] (otherFn P ''extractUrls'')]"

definition HashOperations :: "platform \<Rightarrow> (jsstring \<times> opEntry) list" where
  "HashOperations P =
    [entry ''sha256'' (js ''SHA-256'') ''hash'' [] (otherFn P ''sha256''),
     entry ''sha384'' (js ''SHA-384'') ''hash'' [] (otherFn P ''sha384''),
     entry ''sha512'' (js ''SHA-512'') ''hash'' [] (otherFn P ''sha512''),
     entry ''sha1'' (js ''SHA-1'') ''hash'' [] (\<lambda>input ps. sha1 P input),
     entry ''md5'' (js ''MD5'') ''hash'' [] (\<lambda>input ps. md5 P input),
     entry ''simpleHash32'' (js ''Simple Hash (32-bit)'') ''hash'' []
       (otherFn P ''simpleHash32''),
     entry ''djb2Hash'' (js ''DJB2 Hash'') ''hash'' [] (otherFn P ''djb2Hash''),
     entry ''crc32'' (js ''CRC32 Checksum'') ''hash'' [] (\<lambda>input ps. Inr (crc32 input)),
     entry ''hmacSha256'' (js ''HMAC-SHA256'') ''hash''
       [param ''key'' ''Secret Key'' ''text'' True] (otherFn P ''hmacSha256''),
     entry ''hmacSha512'' (js ''HMAC-SHA512'') ''hash''
       [param ''key'' ''Secret Key'' ''text'' True] (otherFn P ''hmacSha512'')]"

definition CipherOperations :: "platform \<Rightarrow> (jsstring \<times> opEntry) list" where
  "CipherOperations P =
    [entry ''rot13'' (js ''ROT13'') ''cipher'' [] (\<lambda>input ps. Inr (rot13 input)),
     entry ''caesar'' (js ''Caesar Cipher'') ''cipher''
       [param ''shift'' ''Shift Amount'' ''number'' True] caesar,
     entry ''caesarDecrypt'' (js ''Caesar Decrypt'') ''cipher''
       [param ''shift'' ''Shift Amount'' ''number'' True] caesarDecrypt,
     entry ''atbash'' (js ''Atbash Cipher'') ''cipher'' [] (otherFn P ''atbash''),
     entry ''vigenere'' (js ''Vigen'' @ [0xE8] @ js ''re Cipher'') ''cipher''
       [param ''key'' ''Key'' ''text'' True] (otherFn P ''vigenere''),
     entry ''vigenereDecrypt'' (js ''Vigen'' @ [0xE8] @ js ''re Decrypt'') ''cipher''
       [param ''key'' ''Key'' ''text'' True] (otherFn P ''vigenereDecrypt''),
     entry ''railFence'' (js ''Rail Fence Cipher'') ''cipher''
       [param ''rails'' ''Number of Rails'' ''number'' True] railFence,
     entry ''railFenceDecrypt'' (js ''Rail Fence Decrypt'') ''cipher''
       [param ''rails'' ''Number of Rails'' ''number'' True] railFenceDecrypt,
     entry ''xorCipher'' (js ''XOR Cipher'') ''cipher''
       [param ''key'' ''Key'' ''text'' True] (otherFn P ''xorCipher''),
     entry ''substitution'' (js ''Substitution Cipher'') ''cipher''
       [param ''alphabet'' ''Substitution Alphabet'' ''text'' True] (substitution P)]"

definition operations :: "platform \<Rightarrow> (jsstring \<times> opEntry) list" where
  "operations P =
     EncodingOperations P @ TextOperations P @ HashOperations P @ CipherOperations P"

text \<open>
  \<open>operations[key]\<close> finds an entry of the catalogue, or else a property that every
  object inherits from \<open>Object.prototype\<close> (a function, or the prototype itself), or
  nothing.
\<close>

definition objectPrototypeKeys :: "jsstring list" where
  "objectPrototypeKeys =
     map js [''constructor'', ''hasOwnProperty'', ''isPrototypeOf'', ''propertyIsEnumerable'',
             ''toLocaleString'', ''toString'', ''valueOf'', ''__proto__'',
             ''__defineGetter__'', ''__defineSetter__'', ''__lookupGetter__'',
             ''__lookupSetter__'']"

datatype lookup = Own opEntry | Inherited | Absent

definition get :: "platform \<Rightarrow> jsstring \<Rightarrow> lookup" where
  "get P key =
     (case map_of (operations P) key of
        Some ope \<Rightarrow> Own ope
      | None \<Rightarrow> if key \<in> set objectPrototypeKeys then Inherited else Absent)"

text \<open>
  \<open>execute\<close>. Beside its result the model returns the calls of transforms it has
  made, each with the key of the operation and the input passed: none when it throws
  before \<open>op.fn(input, params)\<close>, one otherwise. An inherited property is truthy, has
  no \<open>params\<close> and no \<open>fn\<close>, so that the call of \<open>op.fn\<close> is a TypeError.
\<close>

type_synonym call = "jsstring \<times> jsstring"

definition missingParam :: "paramSpec list \<Rightarrow> params \<Rightarrow> paramSpec option" where
  "missingParam specs ps = find (\<lambda>p. required p \<and> \<not> truthy (getParam ps (pname p))) specs"

definition execute ::
  "platform \<Rightarrow> jsstring \<Rightarrow> jsstring \<Rightarrow> params \<Rightarrow> call list \<times> jsstring result"
where
  "execute P key input ps =
     (case get P key of
        Absent \<Rightarrow> ([], Inl (Error (js ''Unknown operation: '' @ key)))
      | Inherited \<Rightarrow> ([], Inl (TypeError ''op.fn''))
      | Own ope \<Rightarrow>
          (case missingParam (params ope) ps of
             Some p \<Rightarrow>
               ([], Inl (Error (js ''Parameter '' @ [0x22] @ js (label p) @ [0x22]
                                 @ js '' is required'')))
           | None \<Rightarrow> ([(key, input)], fn ope input ps)))"

section \<open>Running a recipe (app.js)\<close>

text \<open>
  A step of a recipe: the key of its operation and its parameters (\<open>step.params || {}\<close>,
  so a step without parameters has the empty list). The loop of \<open>executeRecipe\<close>
  carries the step index, the running value and the execution log, whose entries are the
  1-based number and the display name of each completed step; the times it measures are
  left out. A failure of a step is thrown again as \<open>Step i+1: message\<close>.
\<close>

type_synonym step = "jsstring \<times> params"

fun runSteps ::
  "platform \<Rightarrow> step list \<Rightarrow> nat \<Rightarrow> jsstring \<Rightarrow> (nat \<times> jsstring) list
   \<Rightarrow> call list \<times> (jsstring \<times> (nat \<times> jsstring) list) result"
where
  "runSteps P [] i res executionLog = ([], Inr (res, executionLog))"
| "runSteps P (s # recipe) i res executionLog =
     (case execute P (fst s) res (snd s) of
        (calls, Inl e) \<Rightarrow>
          (calls, Inl (Error (js ''Step '' @ numToString (of_nat (i + 1)) @ js '': '' @ message P e)))
      | (calls, Inr r) \<Rightarrow>
          (case get P (fst s) of
             Own operation \<Rightarrow>
               (case runSteps P recipe (i + 1) r (executionLog @ [(i + 1, name operation)]) of
                  (calls', outcome) \<Rightarrow> (calls @ calls', outcome))
           | _ \<Rightarrow>
               (calls, Inl (Error (js ''Step '' @ numToString (of_nat (i + 1)) @ js '': ''
                                   @ message P (TypeError ''operation.name''))))))"

text \<open>
  The \<open>Logger\<close> that app.js takes from ui.js has the methods \<open>log\<close>, \<open>info\<close>,
  \<open>success\<close>, \<open>error\<close>, \<open>warning\<close> and \<open>clear\<close>. It has no \<open>open\<close>
  (ui.js notes that \<open>toggle\<close>, \<open>open\<close> and \<open>close\<close> were removed, and app.js
  never adds one), so \<open>Logger.open\<close> is \<open>undefined\<close> and the call
  \<open>Logger.open()\<close> raises the TypeError of calling what is not a function.
\<close>

definition Logger_open :: "unit result" where
  "Logger_open = Inl (TypeError ''Logger.open'')"

text \<open>
  What \<open>executeRecipe\<close> leaves behind: the value written to the output field (if
  any), the results shown, the messages given to \<open>Logger.error\<close>, and the error that
  leaves the function uncaught (if any), with which its promise is rejected. The three
  calls of \<open>Logger.open()\<close> stand outside the \<open>try\<close> block.
\<close>

datatype report = Succeeded "(nat \<times> jsstring) list" nat nat | Failed jsstring

record page =
  outputValue :: "jsstring option"
  results :: "report option"
  logged :: "jsstring list"
  uncaught :: "error option"

definition executeRecipe :: "platform \<Rightarrow> step list \<Rightarrow> jsstring \<Rightarrow> call list \<times> page" where
  "executeRecipe P recipe input =
     (if input = [] then
        (case Logger_open of
           Inl thrown \<Rightarrow>
             ([], \<lparr>outputValue = None, results = None, logged = [js ''Input is empty''],
                   uncaught = Some thrown\<rparr>)
         | Inr u \<Rightarrow>
             ([], \<lparr>outputValue = None, results = None, logged = [js ''Input is empty''],
                   uncaught = None\<rparr>))
      else if recipe = [] then
        (case Logger_open of
           Inl thrown \<Rightarrow>
             ([], \<lparr>outputValue = None, results = None,
                   logged = [js ''Recipe is empty. Add operations first.''],
                   uncaught = Some thrown\<rparr>)
         | Inr u \<Rightarrow>
             ([], \<lparr>outputValue = None, results = None,
                   logged = [js ''Recipe is empty. Add operations first.''],
                   uncaught = None\<rparr>))
      else
        (case Logger_open of
           Inl thrown \<Rightarrow>
             ([], \<lparr>outputValue = None, results = None, logged = [], uncaught = Some thrown\<rparr>)
         | Inr u \<Rightarrow>
             (case runSteps P recipe 0 input [] of
                (calls, Inr (res, executionLog)) \<Rightarrow>
                  (calls, \<lparr>outputValue = Some res,
                           results = Some (Succeeded executionLog (length input) (length res)),
                           logged = [], uncaught = None\<rparr>)
              | (calls, Inl e) \<Rightarrow>
                  (calls, \<lparr>outputValue = Some (js ''Error: '' @ message P e),
                           results = Some (Failed (message P e)),
                           logged = [message P e], uncaught = None\<rparr>))))"

section \<open>Detecting the format of the input (app.js)\<close>

record detection =
  detected :: bool
  dtype :: "jsstring option"
  confidence :: jsstring
  operation :: "jsstring option"
  details :: jsstring
  analysis :: "(string \<times> jsval) list"

text \<open>\<open>text.trim()\<close> and \<open>trimmed.replace(/\s+/g, '')\<close>\<close>

definition trim :: "jsstring \<Rightarrow> jsstring" where
  "trim s = rev (dropWhile isSpace (rev (dropWhile isSpace s)))"

definition removeSpaces :: "jsstring \<Rightarrow> jsstring" where
  "removeSpaces s = filter (\<lambda>c. \<not> isSpace c) s"

text \<open>The number of matches of \<open>/%[0-9A-Fa-f]{2}/g\<close>, found from left to right.\<close>

fun countUrlEscapes :: "jsstring \<Rightarrow> nat" where
  "countUrlEscapes (a # b # c # s) =
     (if a = 0x25 \<and> isHexDigit b \<and> isHexDigit c then Suc (countUrlEscapes s)
      else countUrlEscapes (b # c # s))"
| "countUrlEscapes _ = 0"

text \<open>\<open>/^[A-Za-z0-9+/]*={0,2}$/\<close>\<close>

definition base64Regex :: "jsstring \<Rightarrow> bool" where
  "base64Regex s =
     (let rest = dropWhile isBase64Char s in rest = [] \<or> rest = js ''='' \<or> rest = js ''=='')"

text \<open>\<open>/^[0-9a-fA-F]+$/\<close>, \<open>/^[\x20-\x7E\s]*$/\<close> and \<open>/^[a-zA-Z0-9\s]+$/\<close>\<close>

definition hexRegex :: "jsstring \<Rightarrow> bool" where
  "hexRegex s = (s \<noteq> [] \<and> list_all isHexDigit s)"

definition printableRegex :: "jsstring \<Rightarrow> bool" where
  "printableRegex s = list_all (\<lambda>c. (0x20 \<le> c \<and> c \<le> 0x7E) \<or> isSpace c) s"

definition alnumRegex :: "jsstring \<Rightarrow> bool" where
  "alnumRegex s = (s \<noteq> [] \<and> list_all (\<lambda>c. isLetter c \<or> isDigit09 c \<or> isSpace c) s)"

text \<open>
  \<open>s.split(/\s+/).length\<close>: one more than the number of maximal runs of white space.
\<close>

fun spaceRuns :: "bool \<Rightarrow> jsstring \<Rightarrow> nat" where
  "spaceRuns inRun [] = 0"
| "spaceRuns inRun (c # s) =
     (if isSpace c then (if inRun then 0 else 1) + spaceRuns True s else spaceRuns False s)"

definition yesNo :: "bool \<Rightarrow> jsval" where
  "yesNo b = Str (if b then js ''Yes'' else js ''No'')"

definition chars :: "nat \<Rightarrow> jsval" where
  "chars n = Str (numToString (of_nat n) @ js '' chars'')"

definition detectInputType :: "platform \<Rightarrow> jsstring \<Rightarrow> detection" where
  "detectInputType P text =
    (if text = [] then
       \<lparr>detected = False, dtype = None, confidence = js ''none'', operation = None,
        details = js ''Input is empty or invalid'', analysis = []\<rparr>
     else let trimmed = trim text in
     if trimmed = [] then
       \<lparr>detected = False, dtype = None, confidence = js ''none'', operation = None,
        details = js ''Input is empty'', analysis = []\<rparr>
     else let cleaned = removeSpaces trimmed;
              urlEncodedCount = countUrlEscapes trimmed in
     if 1 \<le> urlEncodedCount \<and> 2 \<le> urlEncodedCount then
       (let conf = (if 5 < urlEncodedCount then js ''high'' else js ''medium'') in
        \<lparr>detected = True, dtype = Some (js ''URL-encoded''), confidence = conf,
         operation = Some (js ''urlDecode''),
         details = js ''Found '' @ numToString (of_nat urlEncodedCount)
                   @ js '' URL-encoded sequences'',
         analysis = [(''Format'', Str (js ''URL Encoding'')),
                     (''Encoded Sequences'', Num (of_nat urlEncodedCount)),
                     (''Total Length'', chars (length trimmed)),
                     (''Confidence'', Str conf),
                     (''Action'', Str (js ''URL Decode recommended''))]\<rparr>)
     else let isValidBase64Format =
                (base64Regex cleaned \<and> length cleaned mod 4 = 0 \<and> 0 < length cleaned
                 \<and> list_ex isBase64Char cleaned);
              decoding = (if isValidBase64Format \<and> 4 \<le> length cleaned then atob P cleaned
                          else None) in
     case decoding of
       Some decoded \<Rightarrow>
         (let isPrintable = printableRegex decoded;
              conf = (if isPrintable \<and> 0 < length decoded then js ''high'' else js ''medium'') in
          \<lparr>detected = True, dtype = Some (js ''Base64''), confidence = conf,
           operation = Some (js ''fromBase64''),
           details = js ''Valid Base64 encoding detected'',
           analysis = [(''Format'', Str (js ''Base64 Encoding'')),
                       (''Encoded Length'', chars (length cleaned)),
                       (''Decoded Length'', chars (length decoded)),
                       (''Printable Text'', yesNo isPrintable),
                       (''Confidence'', Str conf),
                       (''Action'', Str (js ''From Base64 recommended''))]\<rparr>)
     | None \<Rightarrow>
     let isValidHex = (hexRegex cleaned \<and> length cleaned mod 2 = 0 \<and> 0 < length cleaned) in
     if isValidHex \<and> 8 \<le> length cleaned then
       (let conf = (if 16 \<le> length cleaned then js ''high'' else js ''medium'') in
        \<lparr>detected = True, dtype = Some (js ''Hexadecimal''), confidence = conf,
         operation = Some (js ''fromHex''),
         details = js ''Valid hexadecimal string detected'',
         analysis = [(''Format'', Str (js ''Hexadecimal'')),
                     (''Hex Length'', chars (length cleaned)),
                     (''Byte Count'',
                        Str (numToString (of_nat (length cleaned div 2)) @ js '' bytes'')),
                     (''Confidence'', Str conf),
                     (''Action'', Str (js ''From Hex recommended''))]\<rparr>)
     else
       \<lparr>detected = True, dtype = Some (js ''Plain Text''), confidence = js ''high'',
        operation = None, details = js ''Standard text input'',
        analysis = [(''Format'', Str (js ''Plain Text'')),
                    (''Characters'', Num (of_nat (length trimmed))),
                    (''Lines'', Num (of_nat (length (filter (\<lambda>c. c = 0x0A) trimmed) + 1))),
                    (''Words'', Num (of_nat (spaceRuns False trimmed + 1))),
                    (''Alphanumeric Only'', yesNo (alnumRegex trimmed))]\<rparr>)"

section \<open>Notions used in the statements\<close>

text \<open>
  A string holds a surrogate pair when a high surrogate is directly followed by a low
  one; only then does going through it by code points differ from going through it by
  code units.
\<close>

fun hasSurrogatePair :: "jsstring \<Rightarrow> bool" where
  "hasSurrogatePair (c # d # s) =
     ((isHighSurrogate c \<and> isLowSurrogate d) \<or> hasSurrogatePair (d # s))"
| "hasSurrogatePair [c] = False"
| "hasSurrogatePair [] = False"

text \<open>
  The elements of a text that a pattern of rail numbers puts on rail \<open>k\<close>, in their
  order; and the states of the zig-zag walk that stay inside the fence: the rail is one of
  \<open>0, ..., rails - 1\<close>, and the direction points away from the border the walk is on.
\<close>

fun onRail :: "int \<Rightarrow> int list \<Rightarrow> 'a list \<Rightarrow> 'a list" where
  "onRail k (q # p) (c # xs) = (if q = k then c # onRail k p xs else onRail k p xs)"
| "onRail k [] xs = []"
| "onRail k p [] = []"

definition onTrack :: "int \<Rightarrow> int \<Rightarrow> int \<Rightarrow> bool" where
  "onTrack rails rail direction =
     (0 \<le> rail \<and> rail < rails
      \<and> ((direction = 1 \<and> rail \<noteq> rails - 1) \<or> (direction = - 1 \<and> rail \<noteq> 0)))"

section \<open>Properties\<close>

subsection \<open>Evaluation and hex digits\<close>

lemmas charClasses = isSpace_def isUpperAZ_def isLowerAZ_def isDigit09_def isLetter_def
  isHexDigit_def isBase64Char_def hexSeparator_def isLineTerminator_def isHighSurrogate_def
  isLowSurrogate_def isAscii_def

lemmas parseIntEval = parseIntOr_def parseInt_def digitVal_def digitsValue_def Let_def

lemma digit09_unat: "isDigit09 c \<longleftrightarrow> 48 \<le> unat c \<and> unat c \<le> 57"
  by (simp add: isDigit09_def word_le_nat_alt)

lemma digit09_props:
  assumes "isDigit09 c"
  shows "\<not> isSpace c" and "c \<noteq> 0x2B" and "c \<noteq> 0x2D" and "c \<noteq> 0x78" and "c \<noteq> 0x58"
    and "digitVal c < 10"
  using assms by (auto simp: digit09_unat digitVal_def charClasses word_le_nat_alt)

lemma hex_digit_cases:
  "d < 16 \<Longrightarrow> d = 0 \<or> d = 1 \<or> d = 2 \<or> d = 3 \<or> d = 4 \<or> d = 5 \<or> d = 6 \<or> d = 7 \<or> d = 8
     \<or> d = 9 \<or> d = 10 \<or> d = 11 \<or> d = 12 \<or> d = 13 \<or> d = 14 \<or> (d::nat) = 15"
  by arith

lemma digitChar_digit09:
  assumes "d < 10"
  shows "isDigit09 (digitChar d) \<and> digitVal (digitChar d) = d"
proof -
  from assms have "d < 16" by simp
  from hex_digit_cases [OF this] assms show ?thesis
    by (elim disjE; simp add: digitChar_def digitVal_def charClasses)
qed

lemma natToString_10_digits: "list_all isDigit09 (natToString 10 n)"
proof (induction n rule: less_induct)
  case (less n)
  show ?case
  proof (cases "n < 10")
    case True
    then show ?thesis
      by (simp add: natToString.simps [of 10 n] digitChar_digit09)
  next
    case False
    then have "n div 10 < n" by simp
    from less.IH [OF this] False show ?thesis
      by (simp add: natToString.simps [of 10 n] digitChar_digit09)
  qed
qed

lemma natToString_nonempty: "natToString r n \<noteq> []"
  by (subst natToString.simps) simp

lemma digitsValue_snoc: "digitsValue r (z @ [c]) = digitsValue r z * r + digitVal c"
  by (simp add: digitsValue_def)

lemma digitsValue_natToString: "digitsValue 10 (natToString 10 n) = n"
proof (induction n rule: less_induct)
  case (less n)
  show ?case
  proof (cases "n < 10")
    case True
    then show ?thesis
      by (simp add: natToString.simps [of 10 n] digitsValue_def digitChar_digit09)
  next
    case False
    then have "n div 10 < n" by simp
    from less.IH [OF this] False show ?thesis
      by (simp add: natToString.simps [of 10 n] digitsValue_snoc digitChar_digit09)
  qed
qed

lemma parseInt_digits:
  assumes "s \<noteq> []" "list_all isDigit09 s"
  shows "parseInt s 0 = Some (int (digitsValue 10 s))"
proof -
  obtain c s' where s: "s = c # s'"
    using assms(1) by (cases s) auto
  from assms(2) s have c: "isDigit09 c" by simp
  have space: "dropWhile isSpace s = s"
    using s digit09_props(1) [OF c] by simp
  have sign: "take 1 s \<noteq> js ''+''" "take 1 s \<noteq> js ''-''"
    using s digit09_props(2,3) [OF c] by (simp_all add: js_def)
  have prefix: "take 2 s \<noteq> js ''0x''" "take 2 s \<noteq> js ''0X''"
  proof -
    show "take 2 s \<noteq> js ''0x''"
    proof (cases s')
      case Nil
      with s show ?thesis by (simp add: js_def)
    next
      case (Cons c2 s'')
      with assms(2) s have "isDigit09 c2" by simp
      from digit09_props(4) [OF this] s Cons show ?thesis
        by (simp add: js_def)
    qed
    show "take 2 s \<noteq> js ''0X''"
    proof (cases s')
      case Nil
      with s show ?thesis by (simp add: js_def)
    next
      case (Cons c2 s'')
      with assms(2) s have "isDigit09 c2" by simp
      from digit09_props(5) [OF this] s Cons show ?thesis
        by (simp add: js_def)
    qed
  qed
  have all: "takeWhile (\<lambda>c. digitVal c < 10) s = s"
    using assms(2) by (simp add: list_all_iff digit09_props(6))
  show ?thesis
    unfolding parseInt_def Let_def space
    using sign prefix assms(1) by (simp add: all)
qed

text \<open>\<open>parseInt\<close> reads a printed non-negative Number back.\<close>

lemma parseInt_decimal:
  "0 \<le> n \<Longrightarrow> parseInt (decimal n) 0 = Some n"
  by (simp add: decimal_def parseInt_digits natToString_nonempty natToString_10_digits
      digitsValue_natToString)

lemma parseIntOr_Num: "0 < sint n \<Longrightarrow> parseIntOr (Num n) d = sint n"
  by (simp add: parseIntOr_def numToString_def parseInt_decimal)

lemma join_sep_empty: "sep = [] \<Longrightarrow> join sep xs = concat xs"
  by (induction sep xs rule: join.induct) auto

lemma join_empty: "join [] xs = concat xs"
  by (simp add: join_sep_empty)

lemma natToString_small: "n < r \<Longrightarrow> natToString r n = [digitChar n]"
  by (simp add: natToString.simps)

lemma natToString_two:
  "2 \<le> r \<Longrightarrow> r \<le> n \<Longrightarrow> n < r * r \<Longrightarrow> natToString r n = [digitChar (n div r), digitChar (n mod r)]"
proof -
  assume a: "2 \<le> r" "r \<le> n" "n < r * r"
  then have "n div r < r"
    by (simp add: less_mult_imp_div_less)
  with a show ?thesis
    by (subst natToString.simps) (simp add: natToString_small)
qed

lemma hexByte_digits: "hexByte b = [digitChar (unat b div 16), digitChar (unat b mod 16)]"
proof -
  have lt: "unat b < 256"
    using unsigned_less [of b, where 'a = nat] by simp
  show ?thesis
  proof (cases "unat b < 16")
    case True
    then show ?thesis
      by (simp add: hexByte_def natToString_small padStart_def digitChar_def)
  next
    case False
    with lt have "natToString 16 (unat b) = [digitChar (unat b div 16), digitChar (unat b mod 16)]"
      by (intro natToString_two) auto
    then show ?thesis
      by (simp add: hexByte_def padStart_def)
  qed
qed

lemma length_hexByte: "length (hexByte b) = 2"
  by (simp add: hexByte_digits)

lemma take_concat_hex: "take (2 * k) (concat (map hexByte bs)) = concat (map hexByte (take k bs))"
proof (induction bs arbitrary: k)
  case Nil
  then show ?case by simp
next
  case (Cons b bs)
  show ?case
  proof (cases k)
    case 0
    then show ?thesis by simp
  next
    case (Suc j)
    then show ?thesis
      using Cons.IH [of j] by (simp add: length_hexByte)
  qed
qed


subsection \<open>CRC32\<close>

lemma makeCRCTable_length: "length makeCRCTable = 256"
  by (simp add: makeCRCTable_def)

lemma tableAt_makeCRCTable:
  "i < 256 \<Longrightarrow> tableAt makeCRCTable i = crcBits 8 (of_nat i)"
  unfolding tableAt_def makeCRCTable_def
  by (simp del: upt_rec_numeral)

lemma crcBits_8:
  "crcBits 8 c =
     crcStep (crcStep (crcStep (crcStep (crcStep (crcStep (crcStep (crcStep c)))))))"
  by (simp add: eval_nat_numeral)

lemma allOnes: "(- 1 :: 32 word) = 0xFFFFFFFF"
  by simp

lemma crcLoop_check:
  "crcLoop makeCRCTable (js ''123456789'') (0 XOR (- 1)) = 0x340BC6D9"
  by (simp add: js_def allOnes tableAt_makeCRCTable crcBits_8 crcStep_def)

lemma hex_check:
  "natToString 16 (unat (0x340BC6D9 XOR (- 1) :: 32 word)) = js ''cbf43926''"
  by (simp add: allOnes natToString.simps digitChar_def js_def)

lemma crc32_check: "crc32 (js ''123456789'') = js ''cbf43926''"
  unfolding crc32_def Let_def crcLoop_check hex_check
  by (simp add: padStart_def js_def)

lemma table_128: "tableAt makeCRCTable 128 = 0xEDB88320"
  by (simp add: tableAt_makeCRCTable crcBits_8 crcStep_def)

text \<open>
  C8: the crc32 operation maps the string 123456789 to the eight lowercase hex digits
  cbf43926, the standard check value of CRC-32. The table it is computed with has 256
  entries, built from the reflected polynomial 0xEDB88320 (which is entry 128), and the
  register starts from and is finally combined with the word of all ones.
\<close>

theorem crc32_check_value:
  "crc32 (js ''123456789'') = js ''cbf43926''
   \<and> length (crc32 (js ''123456789'')) = 8
   \<and> length makeCRCTable = 256
   \<and> tableAt makeCRCTable 128 = 0xEDB88320"
  unfolding crc32_check
  by (simp add: makeCRCTable_length table_128 js_def)

subsection \<open>MD5 and SHA-1\<close>

text \<open>
  C7: the output of the md5 operation is the first 32 hex characters of the output of the
  sha1 operation on the same input, with the SHA-1 digest of the platform as one opaque
  primitive: whenever the digest is delivered, sha1 prints all its bytes and md5 the first
  16 of them (two hex characters each), and when the digest fails neither operation has an
  output.
\<close>

theorem md5_is_truncated_sha1:
  "(case sha1 P x of
      Inr h \<Rightarrow> md5 P x = Inr (take 32 h)
    | Inl e \<Rightarrow> isl (md5 P x))
   \<and> (case digest P (js ''SHA-1'') (textEncode P x) of
         Inr d \<Rightarrow> sha1 P x = Inr (concat (map hexByte d))
                  \<and> md5 P x = Inr (concat (map hexByte (take 16 d)))
                  \<and> length (projr (md5 P x)) = 2 * min 16 (length d)
       | Inl e \<Rightarrow> isl (sha1 P x) \<and> isl (md5 P x))"
proof (cases "digest P (js ''SHA-1'') (textEncode P x)")
  case (Inl e)
  then show ?thesis
    by (simp add: sha1_def md5_def)
next
  case (Inr d)
  have "take 32 (concat (map hexByte d)) = concat (map hexByte (take 16 d))"
    using take_concat_hex [of 16 d] by simp
  moreover have "length (concat (map hexByte (take 16 d))) = 2 * min 16 (length d)"
    by (simp add: length_concat comp_def length_hexByte sum_list_triv min_def)
  ultimately show ?thesis
    using Inr by (simp add: sha1_def md5_def join_empty)
qed

subsection \<open>Detection\<close>

lemma numToString_22: "numToString 22 = js ''22''"
  by (simp add: numToString_def decimal_def natToString.simps digitChar_def js_def)

lemma numToString_11: "numToString 11 = js ''11''"
  by (simp add: numToString_def decimal_def natToString.simps digitChar_def js_def)

lemma hex_sample_trim: "trim (js ''48656c6c6f20576f726c64'') = js ''48656c6c6f20576f726c64''"
  by (simp add: trim_def js_def charClasses)

lemma hex_sample_clean: "removeSpaces (js ''48656c6c6f20576f726c64'') = js ''48656c6c6f20576f726c64''"
  by (simp add: removeSpaces_def js_def charClasses)

lemma hex_sample_len: "length (js ''48656c6c6f20576f726c64'') = 22"
  by (simp add: js_def)

lemma hex_sample_url: "countUrlEscapes (js ''48656c6c6f20576f726c64'') = 0"
  by (simp add: js_def charClasses)

lemma hex_sample_b64: "base64Regex (js ''48656c6c6f20576f726c64'')"
  by (simp add: base64Regex_def js_def charClasses)

lemma hex_sample_hex: "hexRegex (js ''48656c6c6f20576f726c64'')"
  by (simp add: hexRegex_def js_def charClasses)

lemma detect_hex:
  "detectInputType P (js ''48656c6c6f20576f726c64'') =
     \<lparr>detected = True, dtype = Some (js ''Hexadecimal''), confidence = js ''high'',
      operation = Some (js ''fromHex''), details = js ''Valid hexadecimal string detected'',
      analysis = [(''Format'', Str (js ''Hexadecimal'')),
                  (''Hex Length'', Str (js ''22 chars'')),
                  (''Byte Count'', Str (js ''11 bytes'')),
                  (''Confidence'', Str (js ''high'')),
                  (''Action'', Str (js ''From Hex recommended''))]\<rparr>"
  unfolding detectInputType_def Let_def hex_sample_trim hex_sample_clean hex_sample_len hex_sample_url
  by (simp add: hex_sample_b64 hex_sample_hex chars_def numToString_22 numToString_11, simp add: js_def)

lemma plain_trim: "trim (js ''hello world'') = js ''hello world''"
  by (simp add: trim_def js_def charClasses)

lemma plain_clean: "removeSpaces (js ''hello world'') = js ''helloworld''"
  by (simp add: removeSpaces_def js_def charClasses)

lemma plain_url: "countUrlEscapes (js ''hello world'') = 0"
  by (simp add: js_def charClasses)

lemma plain_hex: "\<not> hexRegex (js ''helloworld'')"
  by (simp add: hexRegex_def js_def charClasses)

lemma plain_words: "spaceRuns False (js ''hello world'') = 1"
  by (simp add: js_def charClasses)

lemma plain_alnum: "alnumRegex (js ''hello world'')"
  by (simp add: alnumRegex_def js_def charClasses)

lemma detect_plain:
  "detectInputType P (js ''hello world'') =
     \<lparr>detected = True, dtype = Some (js ''Plain Text''), confidence = js ''high'',
      operation = None, details = js ''Standard text input'',
      analysis = [(''Format'', Str (js ''Plain Text'')),
                  (''Characters'', Num 11),
                  (''Lines'', Num 1),
                  (''Words'', Num 2),
                  (''Alphanumeric Only'', Str (js ''Yes''))]\<rparr>"
  unfolding detectInputType_def Let_def plain_trim plain_clean plain_url plain_words
  by (simp add: plain_hex plain_alnum yesNo_def, simp add: js_def)


text \<open>
  C9: detect classifies 48656c6c6f20576f726c64 as Hexadecimal with confidence high and
  suggests fromHex; the input does match the Base64 pattern, but its length 22 is not a
  multiple of 4, so the Base64 branch does not fire. It classifies hello world as Plain
  Text with confidence high and suggests no operation.
\<close>

theorem detect_scenarios:
  "detectInputType P (js ''48656c6c6f20576f726c64'') =
     \<lparr>detected = True, dtype = Some (js ''Hexadecimal''), confidence = js ''high'',
      operation = Some (js ''fromHex''), details = js ''Valid hexadecimal string detected'',
      analysis = [(''Format'', Str (js ''Hexadecimal'')),
                  (''Hex Length'', Str (js ''22 chars'')),
                  (''Byte Count'', Str (js ''11 bytes'')),
                  (''Confidence'', Str (js ''high'')),
                  (''Action'', Str (js ''From Hex recommended''))]\<rparr>
   \<and> base64Regex (removeSpaces (trim (js ''48656c6c6f20576f726c64'')))
   \<and> length (removeSpaces (trim (js ''48656c6c6f20576f726c64''))) mod 4 = 2
   \<and> detectInputType P (js ''hello world'') =
     \<lparr>detected = True, dtype = Some (js ''Plain Text''), confidence = js ''high'',
      operation = None, details = js ''Standard text input'',
      analysis = [(''Format'', Str (js ''Plain Text'')),
                  (''Characters'', Num 11),
                  (''Lines'', Num 1),
                  (''Words'', Num 2),
                  (''Alphanumeric Only'', Str (js ''Yes''))]\<rparr>"
  unfolding detect_hex detect_plain hex_sample_trim hex_sample_clean hex_sample_len
  by (simp add: hex_sample_b64)

subsection \<open>Failing inputs of the encodings and ciphers\<close>

lemma get_caesar:
  "get P (js ''caesar'') = Own \<lparr>name = js ''Caesar Cipher'', category = ''cipher'',
      params = [param ''shift'' ''Shift Amount'' ''number'' True], fn = caesar\<rparr>"
  by (simp add: get_def operations_def EncodingOperations_def TextOperations_def HashOperations_def
      CipherOperations_def entry_def js_def)

lemma get_fromHex:
  "get P (js ''fromHex'') = Own \<lparr>name = js ''From Hex'', category = ''encoding'',
      params = [], fn = (\<lambda>input ps. fromHex P input)\<rparr>"
  by (simp add: get_def operations_def EncodingOperations_def TextOperations_def HashOperations_def
      CipherOperations_def entry_def js_def)

lemma caesar_abc_0: "caesar (js ''abc'') [(''shift'', Str (js ''0''))] = Inr (js ''def'')"
  by (simp add: caesar_def parseIntEval getParam_def js_def charClasses
    replaceLetters_def letterBase_def fromCharCode_def charCode_def jsRem_def)

lemma caesarDecrypt_def_0: "caesarDecrypt (js ''def'') [(''shift'', Str (js ''0''))] = Inr (js ''abc'')"
  by (simp add: caesarDecrypt_def parseIntEval getParam_def js_def charClasses
    replaceLetters_def letterBase_def fromCharCode_def charCode_def jsRem_def)

lemma truthy_str_0: "truthy (getParam [(''shift'', Str (js ''0''))] ''shift'')"
  by (simp add: getParam_def js_def)

text \<open>
  C4, at the shift 0 given as the string 0 (as a recipe file can hold it): the required
  check of execute lets the non-empty string pass, \<open>parseInt\<close> gives 0, and
  \<open>|| 3\<close> replaces it by the default, so caesar and caesarDecrypt do not fail but
  shift by 3.
\<close>

theorem caesar_shift_zero_accepted:
  "caesar (js ''abc'') [(''shift'', Str (js ''0''))] = Inr (js ''def'')
   \<and> caesarDecrypt (js ''def'') [(''shift'', Str (js ''0''))] = Inr (js ''abc'')
   \<and> execute P (js ''caesar'') (js ''abc'') [(''shift'', Str (js ''0''))]
       = ([(js ''caesar'', js ''abc'')], Inr (js ''def''))"
  by (simp add: caesar_abc_0 caesarDecrypt_def_0 execute_def get_caesar missingParam_def param_def truthy_str_0)

lemma fromHex_4g: "fromHex P (js ''4g'') = Inr (textDecode P [4])"
  by (simp add: fromHex_def fromHexBody_def parseIntEval js_def charClasses toUint8_def)

text \<open>
  C3, at the input 4g: the cleaned string has even length and \<open>parseInt\<close> reads the
  pair up to its first character that is no hex digit, so fromHex does not fail but
  decodes the single byte 4.
\<close>

theorem fromHex_accepts_non_hex_digit:
  "fromHex P (js ''4g'') = Inr (textDecode P [4])
   \<and> execute P (js ''fromHex'') (js ''4g'') [] = ([(js ''fromHex'', js ''4g'')], Inr (textDecode P [4]))"
  by (simp add: fromHex_4g execute_def get_fromHex missingParam_def)

lemma fromHex_empty:
  "fromHex P [] = Inl (Error (js ''Invalid hex string: '' @ engineMessage P ''null.map''))"
  by (simp add: fromHex_def fromHexBody_def)

lemma toHex_empty:
  "textEncode P [] = [] \<Longrightarrow> toHex P [] ps = Inr []"
  by (simp add: toHex_def)

text \<open>
  C2, at the empty string: \<open>match\<close> finds no pair and returns \<open>null\<close>, the call
  of \<open>map\<close> on it is a TypeError, and fromHex throws Invalid hex string with the
  engine's message instead of returning the empty string.
\<close>

theorem fromHex_empty_string_throws:
  "fromHex P [] = Inl (Error (js ''Invalid hex string: '' @ engineMessage P ''null.map''))
   \<and> execute P (js ''fromHex'') [] [] =
       ([(js ''fromHex'', [])],
        Inl (Error (js ''Invalid hex string: '' @ engineMessage P ''null.map'')))"
  by (simp add: fromHex_empty execute_def get_fromHex missingParam_def)

lemma upper_alphabet:
  "toUpperCase P (js ''0123456789ABCDEFGHIJKLMNOP'') = js ''0123456789ABCDEFGHIJKLMNOP''"
  by (simp add: toUpperCase_def js_def charClasses asciiUpper_def)

lemma codePoints_alphabet:
  "length (remdups (codePoints (js ''0123456789ABCDEFGHIJKLMNOP''))) = 26"
  by (simp add: js_def charClasses)

lemma substLoop_Hello:
  "substLoop P (js ''0123456789ABCDEFGHIJKLMNOP'') (codePoints (js ''Hello'')) [] = Inr (js ''74bbe'')"
  by (simp add: js_def charClasses toUpperCase_def toLowerCase_def asciiUpper_def asciiLower_def
      charAt_def charCodeAt0_def charCode_def)

text \<open>
  C5, at an alphabet of 26 distinct characters of which ten are digits: substitution
  checks the length and the number of distinct characters only, accepts the alphabet and
  maps Hello to 74bbe.
\<close>

theorem substitution_accepts_non_letters:
  "substitution P (js ''Hello'') [(''alphabet'', Str (js ''0123456789ABCDEFGHIJKLMNOP''))]
     = Inr (js ''74bbe'')"
  unfolding substitution_def getParam_def
  by (simp add: upper_alphabet codePoints_alphabet substLoop_Hello Let_def, simp add: js_def)

theorem substitution_accepts_non_letters_witness:
  "\<forall>P. substitution P (js ''Hello'') [(''alphabet'', Str (js ''0123456789ABCDEFGHIJKLMNOP''))]
          = Inr (js ''74bbe'')
        \<and> length (js ''0123456789ABCDEFGHIJKLMNOP'') = 26
        \<and> list_ex isDigit09 (js ''0123456789ABCDEFGHIJKLMNOP'')"
  using substitution_accepts_non_letters
  by (simp add: js_def charClasses)

subsection \<open>Required parameters\<close>

lemma catalogue_one_required:
  "list_all (\<lambda>(k, ope). length (filter required (params ope)) \<le> 1) (operations P)"
  by (simp add: operations_def EncodingOperations_def TextOperations_def HashOperations_def
      CipherOperations_def entry_def param_def)

lemma get_Own_in_catalogue: "get P key = Own ope \<Longrightarrow> (key, ope) \<in> set (operations P)"
  by (auto simp: get_def split: option.splits if_splits dest: map_of_SomeD)

lemma find_only_required:
  "length (filter Q xs) \<le> 1 \<Longrightarrow> p \<in> set xs \<Longrightarrow> Q p \<Longrightarrow> R p
   \<Longrightarrow> find (\<lambda>x. Q x \<and> R x) xs = Some p"
proof (induction xs)
  case Nil
  then show ?case by simp
next
  case (Cons x xs)
  show ?case
  proof (cases "Q x")
    case True
    with Cons.prems(1) have "filter Q xs = []" by simp
    then have "\<forall>y \<in> set xs. \<not> Q y"
      by (simp add: filter_empty_conv)
    with Cons.prems True have "x = p" by auto
    with Cons.prems show ?thesis by simp
  next
    case False
    with Cons show ?thesis by auto
  qed
qed

lemma missingParam_required:
  assumes "get P key = Own ope" "p \<in> set (params ope)" "required p"
    "\<not> truthy (getParam ps (pname p))"
  shows "missingParam (params ope) ps = Some p"
proof -
  from assms(1) have "(key, ope) \<in> set (operations P)"
    by (rule get_Own_in_catalogue)
  with catalogue_one_required [of P] have "length (filter required (params ope)) \<le> 1"
    by (auto simp: list_all_iff)
  with assms(2-4) show ?thesis
    unfolding missingParam_def by (intro find_only_required) auto
qed

lemma falsy_values:
  "(\<not> truthy v) = (v = Str [] \<or> v = Num 0 \<or> v = Bool False \<or> v = Null \<or> v = Undefined)"
  by (cases v) auto

text \<open>
  C10: for every operation of the catalogue and every parameter its schema marks
  required, execute throws the error Parameter "label" is required, with the label of
  that parameter, whenever the value supplied for it is falsy, and makes no call of the
  transform; for a key that resolves to nothing it throws Unknown operation whatever
  the parameters are; and the falsy values are the empty string, the number 0, false,
  null and undefined.
\<close>

theorem execute_required_parameter:
  "(get P key = Own ope \<and> p \<in> set (params ope) \<and> required p
      \<and> \<not> truthy (getParam ps (pname p))
     \<longrightarrow> execute P key input ps =
           ([], Inl (Error (js ''Parameter '' @ [0x22] @ js (label p) @ [0x22]
                            @ js '' is required''))))
   \<and> (get P key = Absent
     \<longrightarrow> execute P key input ps = ([], Inl (Error (js ''Unknown operation: '' @ key))))
   \<and> ((\<not> truthy v) = (v = Str [] \<or> v = Num 0 \<or> v = Bool False \<or> v = Null \<or> v = Undefined))"
  by (auto simp: execute_def missingParam_required falsy_values)

lemma get_nope: "get P (js ''nope'') = Absent"
  by (simp add: get_def operations_def EncodingOperations_def TextOperations_def HashOperations_def
      CipherOperations_def entry_def js_def objectPrototypeKeys_def)

theorem execute_required_parameter_witness:
  "\<forall>P. execute P (js ''caesar'') (js ''abc'') [(''shift'', Num 0)] =
         ([], Inl (Error (js ''Parameter '' @ [0x22] @ js ''Shift Amount'' @ [0x22]
                          @ js '' is required'')))
       \<and> execute P (js ''nope'') (js ''abc'') [(''shift'', Num 0)] =
         ([], Inl (Error (js ''Unknown operation: nope'')))
       \<and> \<not> truthy (Bool False)"
proof
  fix P
  have a: "get P (js ''caesar'') = Own \<lparr>name = js ''Caesar Cipher'', category = ''cipher'',
      params = [param ''shift'' ''Shift Amount'' ''number'' True], fn = caesar\<rparr>"
    by (rule get_caesar)
  have b: "\<not> truthy (getParam [(''shift'', Num 0)] (pname (param ''shift'' ''Shift Amount'' ''number'' True)))"
    by (simp add: getParam_def param_def)
  show "execute P (js ''caesar'') (js ''abc'') [(''shift'', Num 0)] =
         ([], Inl (Error (js ''Parameter '' @ [0x22] @ js ''Shift Amount'' @ [0x22]
                          @ js '' is required'')))
       \<and> execute P (js ''nope'') (js ''abc'') [(''shift'', Num 0)] =
         ([], Inl (Error (js ''Unknown operation: nope'')))
       \<and> \<not> truthy (Bool False)"
    using execute_required_parameter [of P "js ''caesar''"
        "\<lparr>name = js ''Caesar Cipher'', category = ''cipher'',
          params = [param ''shift'' ''Shift Amount'' ''number'' True], fn = caesar\<rparr>"
        "param ''shift'' ''Shift Amount'' ''number'' True"
        "[(''shift'', Num 0)]" "js ''abc''" "Bool False"]
      execute_required_parameter [of P "js ''nope''" undefined undefined "[(''shift'', Num 0)]"
        "js ''abc''" "Bool False"]
      a b get_nope [of P]
    by (simp add: param_def js_def)
qed

subsection \<open>Running a recipe\<close>

lemma execute_calls:
  "execute P key input ps = (cs, r) \<Longrightarrow> cs = [] \<or> cs = [(key, input)]"
  by (auto simp: execute_def split: lookup.splits option.splits)

lemma execute_Inr_calls:
  "execute P key input ps = (cs, Inr v) \<Longrightarrow> cs = [(key, input)] \<and> (\<exists>ope. get P key = Own ope)"
  by (auto simp: execute_def split: lookup.splits option.splits)

lemma runSteps_failing_step:
  "execute P (fst s) v (snd s) = (cs, Inl e) \<Longrightarrow>
   runSteps P (s # rest) i v elog =
     (cs, Inl (Error (js ''Step '' @ numToString (of_nat (i + 1)) @ js '': '' @ message P e)))"
  by simp

lemma runSteps_append:
  "runSteps P pre i v elog = (cs, Inr (v', elog')) \<Longrightarrow>
   runSteps P (pre @ rest) i v elog =
     (cs @ fst (runSteps P rest (i + length pre) v' elog'),
      snd (runSteps P rest (i + length pre) v' elog'))"
proof (induction pre arbitrary: i v elog cs)
  case Nil
  then show ?case by simp
next
  case (Cons s pre)
  obtain c1 r1 where ex: "execute P (fst s) v (snd s) = (c1, r1)"
    by (cases "execute P (fst s) v (snd s)")
  show ?case
  proof (cases r1)
    case (Inl e)
    with ex Cons.prems show ?thesis by simp
  next
    case (Inr r)
    with ex obtain ope where own: "get P (fst s) = Own ope"
      using execute_Inr_calls by blast
    obtain c2 out where rs: "runSteps P pre (i + 1) r (elog @ [(i + 1, name ope)]) = (c2, out)"
      by (cases "runSteps P pre (i + 1) r (elog @ [(i + 1, name ope)])")
    with ex Inr own Cons.prems have out: "out = Inr (v', elog')" and cs: "cs = c1 @ c2"
      by auto
    from Cons.IH [OF rs [unfolded out]] ex Inr own cs show ?thesis
      by (simp add: add.commute add.left_commute)
  qed
qed

lemma runSteps_success_calls:
  "runSteps P pre i v elog = (cs, Inr (v', elog')) \<Longrightarrow> map fst cs = map fst pre"
proof (induction pre arbitrary: i v elog cs)
  case Nil
  then show ?case by simp
next
  case (Cons s pre)
  obtain c1 r1 where ex: "execute P (fst s) v (snd s) = (c1, r1)"
    by (cases "execute P (fst s) v (snd s)")
  show ?case
  proof (cases r1)
    case (Inl e)
    with ex Cons.prems show ?thesis by simp
  next
    case (Inr r)
    with ex obtain ope where own: "get P (fst s) = Own ope" and c1: "c1 = [(fst s, v)]"
      using execute_Inr_calls by blast
    obtain c2 out where rs: "runSteps P pre (i + 1) r (elog @ [(i + 1, name ope)]) = (c2, out)"
      by (cases "runSteps P pre (i + 1) r (elog @ [(i + 1, name ope)])")
    with ex Inr own Cons.prems have out: "out = Inr (v', elog')" and cs: "cs = c1 @ c2"
      by auto
    from Cons.IH [OF rs [unfolded out]] c1 cs show ?thesis
      by simp
  qed
qed

text \<open>
  The loop of executeRecipe by itself: if the steps before a step all succeed and
  execute fails at that step (in resolving the operation, in validating the parameters,
  or in the transform), the loop ends with Step n: message, for the 1-based number n of
  that step and the message of the error, whatever steps follow; the transforms called
  are those of the steps before it and at most its own.
\<close>

lemma runSteps_stops_at_first_failure:
  assumes "runSteps P pre 0 input [] = (cs, Inr (v, elog))"
    and "execute P (fst s) v (snd s) = (cs', Inl e)"
  shows "runSteps P (pre @ s # rest) 0 input [] =
           (cs @ cs', Inl (Error (js ''Step '' @ numToString (of_nat (length pre + 1)) @ js '': ''
                                 @ message P e)))
         \<and> map fst (cs @ cs') = take (length (cs @ cs')) (map fst (pre @ [s]))
         \<and> length (cs @ cs') \<le> length pre + 1"
proof -
  have run: "runSteps P (pre @ s # rest) 0 input [] =
      (cs @ cs', Inl (Error (js ''Step '' @ numToString (of_nat (length pre + 1)) @ js '': ''
                            @ message P e)))"
    using runSteps_append [OF assms(1), of "s # rest"] runSteps_failing_step [OF assms(2)]
    by simp
  have pre: "map fst cs = map fst pre"
    using assms(1) by (rule runSteps_success_calls)
  then have len: "length cs = length pre"
    by (metis length_map)
  have last: "cs' = [] \<or> cs' = [(fst s, v)]"
    using assms(2) by (rule execute_calls)
  from pre len last
  have "map fst (cs @ cs') = take (length (cs @ cs')) (map fst (pre @ [s]))"
    by auto
  moreover from len last have "length (cs @ cs') \<le> length pre + 1"
    by auto
  ultimately show ?thesis using run by blast
qed

lemma get_reverse:
  "get P (js ''reverse'') = Own \<lparr>name = js ''Reverse'', category = ''text'',
      params = [], fn = (\<lambda>input ps. Inr (reverse input))\<rparr>"
  by (simp add: get_def operations_def EncodingOperations_def TextOperations_def HashOperations_def
      CipherOperations_def entry_def js_def)

lemma reverse_Hi: "reverse (js ''Hi'') = js ''iH''"
  by (simp add: reverse_def js_def)

lemma caesar_30: "caesar x [(''shift'', Num 30)] = Inl (Error (js ''Shift must be between 1 and 25''))"
  by (simp add: caesar_def parseIntEval getParam_def numToString_def decimal_def natToString.simps digitChar_def
      charClasses js_def)

lemma numToString_2: "numToString 2 = js ''2''"
  by (simp add: numToString_def decimal_def natToString.simps digitChar_def js_def)

lemma runSteps_sample:
  "runSteps P [(js ''reverse'', []), (js ''caesar'', [(''shift'', Num 30)]), (js ''rot13'', [])]
       0 (js ''Hi'') [] =
     ([(js ''reverse'', js ''Hi''), (js ''caesar'', js ''iH'')],
      Inl (Error (js ''Step 2: Shift must be between 1 and 25'')))"
proof -
  have first: "runSteps P [(js ''reverse'', [])] 0 (js ''Hi'') [] =
      ([(js ''reverse'', js ''Hi'')], Inr (js ''iH'', [(1, js ''Reverse'')]))"
    by (simp add: execute_def get_reverse missingParam_def reverse_Hi)
  have second: "execute P (fst (js ''caesar'', [(''shift'', Num 30)])) (js ''iH'')
        (snd (js ''caesar'', [(''shift'', Num 30)])) =
      ([(js ''caesar'', js ''iH'')], Inl (Error (js ''Shift must be between 1 and 25'')))"
    by (simp add: execute_def get_caesar missingParam_def param_def getParam_def caesar_30)
  show ?thesis
    using runSteps_stops_at_first_failure [OF first second, of "[(js ''rot13'', [])]"]
    by (simp add: numToString_2 del: runSteps.simps, simp add: js_def del: runSteps.simps)
qed

text \<open>
  Whatever the recipe and the input, executeRecipe ends in the TypeError of
  \<open>Logger.open()\<close>: it calls no transform, writes nothing to the output field and
  shows no results.
\<close>

lemma executeRecipe_uncaught:
  "fst (executeRecipe P recipe input) = []
   \<and> outputValue (snd (executeRecipe P recipe input)) = None
   \<and> results (snd (executeRecipe P recipe input)) = None
   \<and> uncaught (snd (executeRecipe P recipe input)) = Some (TypeError ''Logger.open'')"
  by (simp add: executeRecipe_def Logger_open_def)

text \<open>
  C1, at the recipe Reverse, Caesar with shift 30, ROT13 and the input Hi: executeRecipe
  is left by the TypeError of \<open>Logger.open()\<close> before its loop starts, so that no
  transform is called, the output field is not written and no failure of a step is
  reported; the loop, run on the same recipe and input, calls Reverse and Caesar and ends
  with Step 2: Shift must be between 1 and 25.
\<close>

theorem executeRecipe_throws_before_first_step:
  "executeRecipe P
      [(js ''reverse'', []), (js ''caesar'', [(''shift'', Num 30)]), (js ''rot13'', [])]
      (js ''Hi'') =
     ([], \<lparr>outputValue = None, results = None, logged = [],
           uncaught = Some (TypeError ''Logger.open'')\<rparr>)
   \<and> runSteps P
      [(js ''reverse'', []), (js ''caesar'', [(''shift'', Num 30)]), (js ''rot13'', [])]
      0 (js ''Hi'') [] =
     ([(js ''reverse'', js ''Hi''), (js ''caesar'', js ''iH'')],
      Inl (Error (js ''Step 2: Shift must be between 1 and 25'')))"
  by (intro conjI, simp add: executeRecipe_def Logger_open_def js_def, rule runSteps_sample)

subsection \<open>Rail fence\<close>

lemma codePoints_no_pair: "\<not> hasSurrogatePair x \<Longrightarrow> codePoints x = map (\<lambda>c. [c]) x"
  by (induction x rule: codePoints.induct) auto

lemma onTrack_start: "2 \<le> rails \<Longrightarrow> onTrack rails 0 1"
  by (simp add: onTrack_def)

lemma onTrack_step:
  "2 \<le> rails \<Longrightarrow> onTrack rails rail direction \<Longrightarrow>
   onTrack rails (rail + direction) (turn rails (rail + direction) direction)"
  by (auto simp: onTrack_def turn_def)

lemma onTrack_range: "onTrack rails rail direction \<Longrightarrow> 0 \<le> rail \<and> rail < rails"
  by (simp add: onTrack_def)

lemma length_patternLoop: "length (patternLoop rails n rail direction) = n"
  by (induction n arbitrary: rail direction) auto

lemma patternLoop_range:
  "2 \<le> rails \<Longrightarrow> onTrack rails rail direction \<Longrightarrow>
   q \<in> set (patternLoop rails n rail direction) \<Longrightarrow> 0 \<le> q \<and> q < rails"
proof (induction n arbitrary: rail direction)
  case 0
  then show ?case by simp
next
  case (Suc n)
  from Suc.prems(3) consider "q = rail"
    | "q \<in> set (patternLoop rails n (rail + direction) (turn rails (rail + direction) direction))"
    by auto
  then show ?case
  proof cases
    case 1
    with Suc.prems(2) show ?thesis by (simp add: onTrack_def)
  next
    case 2
    with Suc.IH [OF Suc.prems(1) onTrack_step [OF Suc.prems(1,2)]] show ?thesis by blast
  qed
qed

lemma onRail_map: "onRail k p (map f xs) = map f (onRail k p xs)"
  by (induction k p xs rule: onRail.induct) auto

lemma length_onRail:
  "length p = length xs \<Longrightarrow> length (onRail k p xs) = count_list p k"
  by (induction p xs rule: list_induct2) auto

lemma fenceLoop_buckets:
  "2 \<le> rails \<Longrightarrow> onTrack rails rail direction \<Longrightarrow> length fence = nat rails \<Longrightarrow>
   fenceLoop rails chs fence rail direction =
     Inr (map (\<lambda>k. fence ! k @ onRail (int k) (patternLoop rails (length chs) rail direction) chs)
            [0..<nat rails])"
proof (induction chs arbitrary: fence rail direction)
  case Nil
  have "map ((!) fence) [0..<length fence] = fence"
    by (rule map_nth)
  with Nil.prems(3) show ?case
    by simp
next
  case (Cons ch chs)
  let ?fence = "fence[nat rail := fence ! nat rail @ [ch]]"
  let ?rail = "rail + direction"
  let ?dir = "turn rails (rail + direction) direction"
  from Cons.prems have rng: "0 \<le> rail" "rail < rails" "nat rail < length fence"
    by (auto simp: onTrack_def)
  have len: "length ?fence = nat rails"
    using Cons.prems(3) by simp
  have "fenceLoop rails (ch # chs) fence rail direction = fenceLoop rails chs ?fence ?rail ?dir"
    using rng Cons.prems(3) by simp
  also have "\<dots> = Inr (map (\<lambda>k. ?fence ! k @ onRail (int k) (patternLoop rails (length chs) ?rail ?dir) chs)
            [0..<nat rails])"
    by (rule Cons.IH [OF Cons.prems(1) onTrack_step [OF Cons.prems(1,2)] len])
  also have "map (\<lambda>k. ?fence ! k @ onRail (int k) (patternLoop rails (length chs) ?rail ?dir) chs)
            [0..<nat rails]
        = map (\<lambda>k. fence ! k @ onRail (int k) (patternLoop rails (length (ch # chs)) rail direction) (ch # chs))
            [0..<nat rails]"
  proof (rule map_cong [OF refl])
    fix k assume "k \<in> set [0..<nat rails]"
    then have k: "k < length fence" using Cons.prems(3) by simp
    show "?fence ! k @ onRail (int k) (patternLoop rails (length chs) ?rail ?dir) chs
        = fence ! k @ onRail (int k) (patternLoop rails (length (ch # chs)) rail direction) (ch # chs)"
    proof (cases "k = nat rail")
      case True
      with rng k show ?thesis by simp
    next
      case False
      with rng have "rail \<noteq> int k" by auto
      with False k show ?thesis by simp
    qed
  qed
  finally show ?case .
qed

lemma sum_list_delta:
  "sum_list (map (\<lambda>k. if q = int k then (1::nat) else 0) [0..<n]) = (if 0 \<le> q \<and> q < int n then 1 else 0)"
proof (induction n)
  case 0
  then show ?case by simp
next
  case (Suc n)
  then show ?case by auto
qed

lemma length_buckets:
  "length p = length xs \<Longrightarrow> \<forall>q \<in> set p. 0 \<le> q \<and> q < int n \<Longrightarrow>
   length (concat (map (\<lambda>k. onRail (int k) p xs) [0..<n])) = length xs"
proof (induction p xs rule: list_induct2)
  case Nil
  then show ?case by (simp add: length_concat comp_def)
next
  case (Cons q p c xs)
  have eq: "map (\<lambda>k. length (onRail (int k) (q # p) (c # xs))) [0..<n]
      = map (\<lambda>k. (if q = int k then 1 else 0) + length (onRail (int k) p xs)) [0..<n]"
    by (rule map_cong) auto
  have "sum_list (map (\<lambda>k. length (onRail (int k) (q # p) (c # xs))) [0..<n])
      = sum_list (map (\<lambda>k. (if q = int k then 1 else 0) + length (onRail (int k) p xs)) [0..<n])"
    by (simp only: eq)
  also have "\<dots> = sum_list (map (\<lambda>k. if q = int k then (1::nat) else 0) [0..<n])
        + sum_list (map (\<lambda>k. length (onRail (int k) p xs)) [0..<n])"
    by (rule sum_list_addf)
  finally have split: "sum_list (map (\<lambda>k. length (onRail (int k) (q # p) (c # xs))) [0..<n])
      = sum_list (map (\<lambda>k. if q = int k then (1::nat) else 0) [0..<n])
        + sum_list (map (\<lambda>k. length (onRail (int k) p xs)) [0..<n])" .
  have "length (concat (map (\<lambda>k. onRail (int k) (q # p) (c # xs)) [0..<n]))
      = sum_list (map (\<lambda>k. length (onRail (int k) (q # p) (c # xs))) [0..<n])"
    by (simp only: length_concat map_map comp_def)
  moreover have "length (concat (map (\<lambda>k. onRail (int k) p xs) [0..<n]))
      = sum_list (map (\<lambda>k. length (onRail (int k) p xs)) [0..<n])"
    by (simp only: length_concat map_map comp_def)
  ultimately show ?case
    using Cons split by (simp add: sum_list_delta)
qed

lemma fillRow_take:
  "count_list p k \<le> length y - index \<Longrightarrow>
   fillRow y k p row index =
     (row @ map (\<lambda>c. Str [c]) (take (count_list p k) (drop index y)), index + count_list p k)"
proof (induction p arbitrary: row index)
  case Nil
  then show ?case by simp
next
  case (Cons q p)
  show ?case
  proof (cases "q = k")
    case True
    with Cons.prems have lt: "index < length y" and le: "count_list p k \<le> length y - Suc index"
      by auto
    from lt have d: "drop index y = y ! index # drop (Suc index) y"
      by (simp add: Cons_nth_drop_Suc)
    from True lt Cons.IH [OF le] show ?thesis
      by (simp add: textAt_def d)
  next
    case False
    with Cons show ?thesis by simp
  qed
qed

lemma fillFence_concat:
  "distinct rs \<Longrightarrow> \<forall>k \<in> set rs. k < length fence \<and> length (B k) = count_list p (int k) \<Longrightarrow>
   drop index y = concat (map B rs) \<Longrightarrow>
   length (fillFence y p rs fence index) = length fence
   \<and> (\<forall>k \<in> set rs. fillFence y p rs fence index ! k = fence ! k @ map (\<lambda>c. Str [c]) (B k))
   \<and> (\<forall>k. k \<notin> set rs \<longrightarrow> fillFence y p rs fence index ! k = fence ! k)"
proof (induction rs arbitrary: fence index)
  case Nil
  then show ?case by simp
next
  case (Cons r rs)
  let ?row = "fence ! r @ map (\<lambda>c. Str [c]) (B r)"
  let ?index = "index + length (B r)"
  from Cons.prems have r: "r < length fence" "length (B r) = count_list p (int r)" "r \<notin> set rs"
    by auto
  from Cons.prems(3) have d: "drop index y = B r @ concat (map B rs)"
    by simp
  then have "length (B r) \<le> length (drop index y)"
    by simp
  then have le: "count_list p (int r) \<le> length y - index"
    using r(2) by simp
  have tk: "take (count_list p (int r)) (drop index y) = B r"
    using d r(2) by simp
  have row: "fillRow y (int r) p (fence ! r) index = (?row, ?index)"
    using fillRow_take [OF le, of "fence ! r"] tk r(2) by simp
  have d': "drop ?index y = concat (map B rs)"
    using d by (metis add.commute append_eq_conv_conj drop_drop)
  have step: "fillFence y p (r # rs) fence index = fillFence y p rs (fence[r := ?row]) ?index"
    using row by simp
  have pre: "\<forall>k \<in> set rs. k < length (fence[r := ?row]) \<and> length (B k) = count_list p (int k)"
    using Cons.prems(2) by simp
  from Cons.prems(1) have dist: "distinct rs" by simp
  note IH = Cons.IH [OF dist pre d']
  show ?case
    unfolding step
  proof (intro conjI ballI allI impI)
    show "length (fillFence y p rs (fence[r := ?row]) ?index) = length fence"
      using IH by simp
  next
    fix k assume k: "k \<in> set (r # rs)"
    show "fillFence y p rs (fence[r := ?row]) ?index ! k = fence ! k @ map (\<lambda>c. Str [c]) (B k)"
    proof (cases "k = r")
      case True
      with r IH show ?thesis by simp
    next
      case False
      with k have "k \<in> set rs" by simp
      with IH False show ?thesis by simp
    qed
  next
    fix k assume "k \<notin> set (r # rs)"
    then have "k \<notin> set rs" "k \<noteq> r" by auto
    with IH show "fillFence y p rs (fence[r := ?row]) ?index ! k = fence ! k"
      by simp
  qed
qed

lemma readLoop_correct:
  "2 \<le> rails \<Longrightarrow> onTrack rails rail direction \<Longrightarrow> length fence = nat rails \<Longrightarrow>
   length railIndices = nat rails \<Longrightarrow>
   \<forall>k < nat rails. drop (railIndices ! k) (fence ! k)
       = map (\<lambda>c. Str [c]) (onRail (int k) (patternLoop rails (length xs) rail direction) xs) \<Longrightarrow>
   readLoop rails (length xs) fence res rail direction railIndices = Inr (res @ xs)"
proof (induction xs arbitrary: res rail direction railIndices)
  case Nil
  then show ?case by simp
next
  case (Cons c xs)
  let ?k = "nat rail"
  let ?rail = "rail + direction"
  let ?dir = "turn rails (rail + direction) direction"
  let ?idx = "railIndices[?k := Suc (railIndices ! ?k)]"
  from Cons.prems(2,3) have rng: "0 \<le> rail" "rail < rails" "?k < nat rails"
    by (auto simp: onTrack_def)
  from Cons.prems(5) rng have dk: "drop (railIndices ! ?k) (fence ! ?k)
       = Str [c] # map (\<lambda>c. Str [c]) (onRail rail (patternLoop rails (length xs) ?rail ?dir) xs)"
    by simp
  then have lt: "railIndices ! ?k < length (fence ! ?k)"
    by (metis drop_eq_Nil list.distinct(1) not_le)
  with dk have nth: "fence ! ?k ! (railIndices ! ?k) = Str [c]"
    by (metis Cons_nth_drop_Suc list.inject)
  from dk lt have dk': "drop (Suc (railIndices ! ?k)) (fence ! ?k)
       = map (\<lambda>c. Str [c]) (onRail rail (patternLoop rails (length xs) ?rail ?dir) xs)"
    by (metis Cons_nth_drop_Suc list.inject)
  have inv: "\<forall>k < nat rails. drop (?idx ! k) (fence ! k)
       = map (\<lambda>c. Str [c]) (onRail (int k) (patternLoop rails (length xs) ?rail ?dir) xs)"
  proof (intro allI impI)
    fix k assume k: "k < nat rails"
    show "drop (?idx ! k) (fence ! k)
       = map (\<lambda>c. Str [c]) (onRail (int k) (patternLoop rails (length xs) ?rail ?dir) xs)"
    proof (cases "k = ?k")
      case True
      with dk' rng Cons.prems(4) show ?thesis by simp
    next
      case False
      with rng have "rail \<noteq> int k" by auto
      with Cons.prems(5) k False show ?thesis by simp
    qed
  qed
  have len: "length ?idx = nat rails"
    using Cons.prems(4) by simp
  have "readLoop rails (length (c # xs)) fence res rail direction railIndices
      = readLoop rails (length xs) fence (res @ [c]) ?rail ?dir ?idx"
    using rng Cons.prems(3) lt nth by (simp add: Let_def)
  also have "\<dots> = Inr ((res @ [c]) @ xs)"
    by (rule Cons.IH [OF Cons.prems(1) onTrack_step [OF Cons.prems(1,2)] Cons.prems(3) len inv])
  finally show ?case by simp
qed

lemma concat_singletons: "concat (map (\<lambda>c. [c]) xs) = xs"
  by (induction xs) auto

lemma concat_concat_singletons:
  "concat (concat (map (\<lambda>k. map (\<lambda>c. [c]) (f k)) ks)) = concat (map f ks)"
  by (induction ks) (auto simp: concat_singletons)

lemma railFence_buckets:
  assumes "\<not> hasSurrogatePair x"
    and "parseIntOr (getParam ps ''rails'') 3 = rails"
    and "2 \<le> rails" and "rails \<le> 10" and "rails \<le> int (length x)"
  shows "railFence x ps =
           Inr (concat (map (\<lambda>k. onRail (int k) (patternLoop rails (length x) 0 1) x)
                          [0..<nat rails]))"
proof -
  let ?p = "patternLoop rails (length x) 0 1"
  have cp: "codePoints x = map (\<lambda>c. [c]) x"
    using assms(1) by (rule codePoints_no_pair)
  have "fenceLoop rails (codePoints x) (replicate (nat rails) []) 0 1
      = Inr (map (\<lambda>k. replicate (nat rails) [] ! k
                       @ onRail (int k) (patternLoop rails (length (codePoints x)) 0 1) (codePoints x))
               [0..<nat rails])"
    using assms(3) by (intro fenceLoop_buckets onTrack_start) auto
  also have "map (\<lambda>k. replicate (nat rails) [] ! k
                       @ onRail (int k) (patternLoop rails (length (codePoints x)) 0 1) (codePoints x))
               [0..<nat rails]
      = map (\<lambda>k. map (\<lambda>c. [c]) (onRail (int k) ?p x)) [0..<nat rails]"
    by (rule map_cong) (auto simp: cp onRail_map)
  finally have loop: "fenceLoop rails (codePoints x) (replicate (nat rails) []) 0 1
      = Inr (map (\<lambda>k. map (\<lambda>c. [c]) (onRail (int k) ?p x)) [0..<nat rails])" .
  have flat: "concat (concat (map (\<lambda>k. map (\<lambda>c. [c]) (onRail (int k) ?p x)) [0..<nat rails]))
      = concat (map (\<lambda>k. onRail (int k) ?p x) [0..<nat rails])"
    by (rule concat_concat_singletons)
  show ?thesis
    using assms(2-5) loop flat by (simp add: railFence_def join_empty)
qed

lemma railFenceDecrypt_buckets:
  assumes "parseIntOr (getParam ps ''rails'') 3 = rails"
    and "2 \<le> rails" and "rails \<le> 10" and "rails \<le> int (length x)"
    and "y = concat (map (\<lambda>k. onRail (int k) (patternLoop rails (length x) 0 1) x)
                          [0..<nat rails])"
  shows "railFenceDecrypt y ps = Inr x"
proof -
  let ?p = "patternLoop rails (length x) 0 1"
  let ?B = "\<lambda>k. onRail (int k) ?p x"
  let ?R = "nat rails"
  have track: "onTrack rails 0 1"
    using assms(2) by (rule onTrack_start)
  have lenp: "length ?p = length x"
    by (rule length_patternLoop)
  have range: "\<forall>q \<in> set ?p. 0 \<le> q \<and> q < int ?R"
    using patternLoop_range [OF assms(2) track] assms(2) by auto
  have leny: "length y = length x"
    unfolding assms(5) using lenp range by (rule length_buckets)
  let ?fence = "fillFence y ?p [0..<?R] (replicate ?R []) 0"
  have fill: "length ?fence = length (replicate ?R ([]::jsval list))
     \<and> (\<forall>k \<in> set [0..<?R]. ?fence ! k = replicate ?R [] ! k @ map (\<lambda>c. Str [c]) (?B k))
     \<and> (\<forall>k. k \<notin> set [0..<?R] \<longrightarrow> ?fence ! k = replicate ?R [] ! k)"
  proof (rule fillFence_concat)
    show "distinct [0..<?R]" by simp
    show "\<forall>k \<in> set [0..<?R]. k < length (replicate ?R ([]::jsval list))
            \<and> length (?B k) = count_list ?p (int k)"
      using lenp by (simp add: length_onRail)
    show "drop 0 y = concat (map ?B [0..<?R])"
      using assms(5) by simp
  qed
  then have flen: "length ?fence = ?R"
    and rows: "\<forall>k < ?R. ?fence ! k = map (\<lambda>c. Str [c]) (?B k)"
    by auto
  have "readLoop rails (length x) ?fence [] 0 1 (replicate ?R 0) = Inr ([] @ x)"
  proof (rule readLoop_correct [OF assms(2) track flen])
    show "length (replicate ?R (0::nat)) = ?R" by simp
    show "\<forall>k < ?R. drop (replicate ?R 0 ! k) (?fence ! k) = map (\<lambda>c. Str [c]) (?B k)"
      using rows by simp
  qed
  then show ?thesis
    using assms(1-4) leny by (simp add: railFenceDecrypt_def)
qed

lemma railFence_short:
  "parseIntOr (getParam ps ''rails'') 3 = rails \<Longrightarrow> 2 \<le> rails \<Longrightarrow> rails \<le> 10 \<Longrightarrow>
   int (length x) < rails \<Longrightarrow> railFence x ps = Inr x \<and> railFenceDecrypt x ps = Inr x"
  by (simp add: railFence_def railFenceDecrypt_def)


lemma railFence_inverse:
  assumes "\<not> hasSurrogatePair x"
    and "2 \<le> parseIntOr (getParam ps ''rails'') 3"
    and "parseIntOr (getParam ps ''rails'') 3 \<le> 10"
  shows "\<exists>y. railFence x ps = Inr y \<and> railFenceDecrypt y ps = Inr x
             \<and> (if int (length x) < parseIntOr (getParam ps ''rails'') 3 then y = x
                 else length y = length x)"
proof (cases "int (length x) < parseIntOr (getParam ps ''rails'') 3")
  case True
  with assms(2,3) railFence_short [OF refl, of ps x] show ?thesis
    by simp
next
  case False
  let ?rails = "parseIntOr (getParam ps ''rails'') 3"
  let ?y = "concat (map (\<lambda>k. onRail (int k) (patternLoop ?rails (length x) 0 1) x)
                          [0..<nat ?rails])"
  from False have le: "?rails \<le> int (length x)" by simp
  have enc: "railFence x ps = Inr ?y"
    using assms(1) refl assms(2,3) le by (rule railFence_buckets)
  have dec: "railFenceDecrypt ?y ps = Inr x"
    using refl assms(2,3) le refl by (rule railFenceDecrypt_buckets)
  have "length ?y = length x"
  proof (rule length_buckets)
    show "length (patternLoop ?rails (length x) 0 1) = length x"
      by (rule length_patternLoop)
    show "\<forall>q \<in> set (patternLoop ?rails (length x) 0 1). 0 \<le> q \<and> q < int (nat ?rails)"
      using patternLoop_range [OF assms(2) onTrack_start [OF assms(2)]] assms(2) by auto
  qed
  with enc dec False show ?thesis
    by simp
qed


text \<open>In particular for every number of rails from 2 to 10 given as a Number.\<close>

lemma railFence_inverse_Num:
  assumes "\<not> hasSurrogatePair x" "2 \<le> sint n" "sint n \<le> 10"
  shows "\<exists>y. railFence x [(''rails'', Num n)] = Inr y
             \<and> railFenceDecrypt y [(''rails'', Num n)] = Inr x"
proof -
  have "parseIntOr (getParam [(''rails'', Num n)] ''rails'') 3 = sint n"
    using assms(2,3) by (simp add: getParam_def parseIntOr_Num)
  with railFence_inverse [OF assms(1), of "[(''rails'', Num n)]"] assms(2,3)
  show ?thesis by auto
qed










text \<open>
  Where the text holds a surrogate pair the two operations walk different sequences:
  railFence goes through the text by code points, railFenceDecrypt by code units. For the
  text of U+1F600, a, b and two rails the result of railFenceDecrypt is not the text.
\<close>

lemma parseIntOr_2: "parseIntOr (getParam [(''rails'', Num 2)] ''rails'') 3 = 2"
  by (simp add: parseIntEval getParam_def numToString_def decimal_def natToString.simps
      digitChar_def charClasses js_def)

lemma pair_codePoints:
  "codePoints [0xD83D, 0xDE00, 0x61, 0x62] = [[0xD83D, 0xDE00], [0x61], [0x62]]"
  by (simp add: isHighSurrogate_def isLowSurrogate_def)

lemma pair_fence:
  "fenceLoop 2 [[0xD83D, 0xDE00], [0x61], [0x62]] (replicate (nat 2) []) 0 1
     = Inr [[[0xD83D, 0xDE00], [0x62]], [[0x61]]]"
  by (simp add: turn_def numeral_2_eq_2)

lemma railFence_pair_enc:
  "railFence [0xD83D, 0xDE00, 0x61, 0x62] [(''rails'', Num 2)] = Inr [0xD83D, 0xDE00, 0x62, 0x61]"
  unfolding railFence_def Let_def parseIntOr_2 pair_codePoints pair_fence
  by (simp add: join_empty)

lemma pair_pattern: "patternLoop 2 (length [a, b, c, d]) 0 1 = [0, 1, 0, 1]"
  by (simp add: turn_def)

lemma pair_fill:
  "fillFence [0xD83D, 0xDE00, 0x62, 0x61] [0, 1, 0, 1] [0..<nat 2] (replicate (nat 2) []) 0
     = [[Str [0xD83D], Str [0xDE00]], [Str [0x62], Str [0x61]]]"
  by (simp add: textAt_def numeral_2_eq_2 upt_rec)

lemma pair_read:
  "readLoop 2 (length [a, b, c, d]) [[Str [0xD83D], Str [0xDE00]], [Str [0x62], Str [0x61]]]
      [] 0 1 (replicate (nat 2) 0) = Inr [0xD83D, 0x62, 0xDE00, 0x61]"
  by (simp add: turn_def numeral_2_eq_2)

lemma railFence_pair_dec:
  "railFenceDecrypt [0xD83D, 0xDE00, 0x62, 0x61] [(''rails'', Num 2)]
       = Inr [0xD83D, 0x62, 0xDE00, 0x61]"
  unfolding railFenceDecrypt_def Let_def parseIntOr_2 pair_pattern pair_fill pair_read
  by simp

subsection \<open>Hex decoding of hex encodings\<close>

text \<open>
  Beyond the empty string the hex layer round-trips: decoding the hex digits of a
  non-empty byte sequence gives the bytes back, so that fromHex after toHex (with no
  separator) is the platform's UTF-8 decoding of the UTF-8 encoding of the input, and the
  error at the empty string is the only case where it is not.
\<close>

lemma digitChar_hex:
  assumes "d < 16"
  shows "digitVal (digitChar d) = d"
    and "\<not> hexSeparator (digitChar d)"
    and "\<not> isSpace (digitChar d)"
    and "\<not> isLineTerminator (digitChar d)"
    and "digitChar d \<noteq> 0x2B" and "digitChar d \<noteq> 0x2D"
    and "digitChar d \<noteq> 0x78" and "digitChar d \<noteq> 0x58"
    and "isHexDigit (digitChar d)"
  using hex_digit_cases [OF assms]
  by (elim disjE; simp add: digitChar_def digitVal_def charClasses)+

lemma parseInt_hex_pair:
  assumes "hi < 16" "lo < 16"
  shows "parseInt [digitChar hi, digitChar lo] 16 = Some (int (hi * 16 + lo))"
  using assms digitChar_hex [OF assms(1)] digitChar_hex [OF assms(2)]
  by (simp add: parseInt_def Let_def js_def digitsValue_def)

lemma parseInt_hexByte: "parseInt (hexByte b) 16 = Some (int (unat b))"
proof -
  have "unat b div 16 < 16"
    using unsigned_less [of b, where 'a = nat] by simp
  then show ?thesis
    by (simp add: hexByte_digits parseInt_hex_pair)
qed

lemma toUint8_parseInt_hexByte: "toUint8 (parseInt (hexByte b) 16) = b"
  by (simp add: parseInt_hexByte toUint8_def)

lemma hexByte_clean: "filter (\<lambda>c. \<not> hexSeparator c) (hexByte b) = hexByte b"
proof -
  have "unat b div 16 < 16"
    using unsigned_less [of b, where 'a = nat] by simp
  then show ?thesis
    by (simp add: hexByte_digits digitChar_hex)
qed

lemma hex_clean:
  "filter (\<lambda>c. \<not> hexSeparator c) (concat (map hexByte bs)) = concat (map hexByte bs)"
  by (induction bs) (simp_all add: hexByte_clean)

lemma hex_length: "length (concat (map hexByte bs)) = 2 * length bs"
  by (induction bs) (simp_all add: length_hexByte)

lemma hex_match: "matchDot12 (concat (map hexByte bs)) = map hexByte bs"
proof (induction bs)
  case Nil
  then show ?case by simp
next
  case (Cons b bs)
  have "unat b div 16 < 16"
    using unsigned_less [of b, where 'a = nat] by simp
  with Cons show ?case
    by (simp add: hexByte_digits digitChar_hex)
qed

lemma fromHex_hex:
  assumes "bs \<noteq> []"
  shows "fromHex P (concat (map hexByte bs)) = Inr (textDecode P bs)"
proof -
  obtain b bs' where bs: "bs = b # bs'"
    using assms by (cases bs) auto
  have m: "matchDot12 (concat (map hexByte bs)) = hexByte b # map hexByte bs'"
    using hex_match [of bs] bs by simp
  have dec: "map toUint8 (map (\<lambda>h. parseInt h 16) (map hexByte bs)) = bs"
    by (induction bs) (simp_all add: toUint8_parseInt_hexByte)
  have ok: "\<not> list_ex (\<lambda>v. v = None) (map (\<lambda>h. parseInt h 16) (map hexByte bs))"
    by (induction bs) (simp_all add: parseInt_hexByte)
  show ?thesis
    using m dec ok unfolding fromHex_def fromHexBody_def hex_clean Let_def
    by (simp add: hex_length length_hexByte parseInt_hexByte bs)
qed

lemma toHex_no_separator:
  "\<not> truthy (getParam ps ''separator'') \<Longrightarrow>
   toHex P x ps = Inr (concat (map hexByte (textEncode P x)))"
  by (simp add: toHex_def join_empty)

lemma fromHex_toHex:
  assumes "\<not> truthy (getParam ps ''separator'')"
  shows "\<exists>h. toHex P x ps = Inr h
           \<and> fromHex P h =
               (if textEncode P x = []
                then Inl (Error (js ''Invalid hex string: '' @ engineMessage P ''null.map''))
                else Inr (textDecode P (textEncode P x)))"
  using assms by (simp add: toHex_no_separator fromHex_hex fromHex_empty)

lemma fromHex_odd:
  "odd (length (filter (\<lambda>c. \<not> hexSeparator c) input)) \<Longrightarrow>
   fromHex P input =
     Inl (Error (js ''Invalid hex string: '' @ js ''Hex string length must be even''))"
  by (simp add: fromHex_def fromHexBody_def odd_iff_mod_2_eq_one)

subsection \<open>Caesar shifts\<close>

text \<open>
  Beside the shift 0, caesar and caesarDecrypt do what is expected of them: they fail
  outside 1..25, and inside they shift the letters within their case, leave the other
  characters, and caesarDecrypt undoes caesar.
\<close>

lemma jsRem_nonneg: "0 \<le> a \<Longrightarrow> jsRem a 26 = a mod 26"
  by (cases "a = 0") (simp_all add: jsRem_def)

lemma upper_code: "isUpperAZ c \<longleftrightarrow> 65 \<le> charCode c \<and> charCode c \<le> 90"
  by (simp add: isUpperAZ_def charCode_def word_le_def)

lemma lower_code: "isLowerAZ c \<longleftrightarrow> 97 \<le> charCode c \<and> charCode c \<le> 122"
  by (simp add: isLowerAZ_def charCode_def word_le_def)

lemma letterBase_upper: "isUpperAZ c \<Longrightarrow> letterBase c = 65"
  by (simp add: letterBase_def isUpperAZ_def)

lemma letterBase_lower: "isLowerAZ c \<Longrightarrow> letterBase c = 97"
  by (auto simp: letterBase_def isLowerAZ_def word_le_def)

lemma charCode_fromCharCode: "0 \<le> n \<Longrightarrow> n < 65536 \<Longrightarrow> charCode (fromCharCode n) = n"
  by (simp add: charCode_def fromCharCode_def uint_word_of_int take_bit_eq_mod)

lemma fromCharCode_charCode: "fromCharCode (charCode c) = c"
  by (simp add: charCode_def fromCharCode_def)

lemma shift_upper:
  assumes "isUpperAZ c" "0 \<le> k"
  shows "isUpperAZ (fromCharCode (letterBase c + jsRem (charCode c - letterBase c + k) 26))"
    and "charCode (fromCharCode (letterBase c + jsRem (charCode c - letterBase c + k) 26))
           = 65 + (charCode c - 65 + k) mod 26"
proof -
  from assms(1) have c: "65 \<le> charCode c" "charCode c \<le> 90"
    by (simp_all add: upper_code)
  let ?n = "65 + (charCode c - 65 + k) mod 26"
  have n: "65 \<le> ?n" "?n \<le> 90"
    by simp_all
  have eq: "letterBase c + jsRem (charCode c - letterBase c + k) 26 = ?n"
    using assms c by (simp add: letterBase_upper jsRem_nonneg)
  from n have cc: "charCode (fromCharCode ?n) = ?n"
    by (intro charCode_fromCharCode) auto
  show "charCode (fromCharCode (letterBase c + jsRem (charCode c - letterBase c + k) 26)) = ?n"
    using eq cc by simp
  show "isUpperAZ (fromCharCode (letterBase c + jsRem (charCode c - letterBase c + k) 26))"
    unfolding eq upper_code cc using n by simp
qed

lemma shift_lower:
  assumes "isLowerAZ c" "0 \<le> k"
  shows "isLowerAZ (fromCharCode (letterBase c + jsRem (charCode c - letterBase c + k) 26))"
    and "charCode (fromCharCode (letterBase c + jsRem (charCode c - letterBase c + k) 26))
           = 97 + (charCode c - 97 + k) mod 26"
proof -
  from assms(1) have c: "97 \<le> charCode c" "charCode c \<le> 122"
    by (simp_all add: lower_code)
  let ?n = "97 + (charCode c - 97 + k) mod 26"
  have n: "97 \<le> ?n" "?n \<le> 122"
    by simp_all
  have eq: "letterBase c + jsRem (charCode c - letterBase c + k) 26 = ?n"
    using assms c by (simp add: letterBase_lower jsRem_nonneg)
  from n have cc: "charCode (fromCharCode ?n) = ?n"
    by (intro charCode_fromCharCode) auto
  show "charCode (fromCharCode (letterBase c + jsRem (charCode c - letterBase c + k) 26)) = ?n"
    using eq cc by simp
  show "isLowerAZ (fromCharCode (letterBase c + jsRem (charCode c - letterBase c + k) 26))"
    unfolding eq lower_code cc using n by simp
qed

lemma unshift_arith:
  assumes "0 \<le> a" "a < 26"
  shows "((a + s) mod 26 + (26 - s)) mod 26 = (a::int)"
proof -
  have "((a + s) mod 26 + (26 - s)) mod 26 = (a + s + (26 - s)) mod 26"
    by (rule mod_add_left_eq)
  also have "\<dots> = (a + 26) mod 26"
    by simp
  also have "\<dots> = a"
    using assms by simp
  finally show ?thesis .
qed

lemma charCode_inject: "charCode a = charCode b \<Longrightarrow> a = b"
  by (simp add: charCode_def word_uint_eq_iff)

lemma unshift_letter:
  assumes "isLetter c" "1 \<le> s" "s \<le> 25"
    and "d = fromCharCode (letterBase c + jsRem (charCode c - letterBase c + s) 26)"
  shows "isLetter d"
    and "fromCharCode (letterBase d + jsRem (charCode d - letterBase d - s + 26) 26) = c"
proof -
  have both: "isLetter d
      \<and> fromCharCode (letterBase d + jsRem (charCode d - letterBase d - s + 26) 26) = c"
  proof (cases "isUpperAZ c")
    case True
    then have c: "65 \<le> charCode c" "charCode c \<le> 90"
      by (simp_all add: upper_code)
    from True assms(2) have d: "isUpperAZ d" "charCode d = 65 + (charCode c - 65 + s) mod 26"
      unfolding assms(4) by (simp_all add: shift_upper)
    have k: "0 \<le> 26 - s" using assms(3) by simp
    have "charCode (fromCharCode (letterBase d + jsRem (charCode d - letterBase d + (26 - s)) 26))
        = 65 + (charCode d - 65 + (26 - s)) mod 26"
      using d(1) k by (rule shift_upper)
    also have "\<dots> = charCode c"
      using c unshift_arith [of "charCode c - 65" s] by (simp add: d(2))
    finally have "fromCharCode (letterBase d + jsRem (charCode d - letterBase d + (26 - s)) 26) = c"
      by (rule charCode_inject)
    moreover have "charCode d - letterBase d + (26 - s) = charCode d - letterBase d - s + 26"
      by simp
    ultimately show ?thesis
      using d(1) by (simp add: isLetter_def)
  next
    case False
    with assms(1) have low: "isLowerAZ c"
      by (simp add: isLetter_def)
    then have c: "97 \<le> charCode c" "charCode c \<le> 122"
      by (simp_all add: lower_code)
    from low assms(2) have d: "isLowerAZ d" "charCode d = 97 + (charCode c - 97 + s) mod 26"
      unfolding assms(4) by (simp_all add: shift_lower)
    have k: "0 \<le> 26 - s" using assms(3) by simp
    have "charCode (fromCharCode (letterBase d + jsRem (charCode d - letterBase d + (26 - s)) 26))
        = 97 + (charCode d - 97 + (26 - s)) mod 26"
      using d(1) k by (rule shift_lower)
    also have "\<dots> = charCode c"
      using c unshift_arith [of "charCode c - 97" s] by (simp add: d(2))
    finally have "fromCharCode (letterBase d + jsRem (charCode d - letterBase d + (26 - s)) 26) = c"
      by (rule charCode_inject)
    moreover have "charCode d - letterBase d + (26 - s) = charCode d - letterBase d - s + 26"
      by simp
    ultimately show ?thesis
      using d(1) by (simp add: isLetter_def)
  qed
  from both show "isLetter d" ..
  from both show "fromCharCode (letterBase d + jsRem (charCode d - letterBase d - s + 26) 26) = c" ..
qed

lemma caesar_in_range:
  assumes "parseIntOr (getParam ps ''shift'') 3 = s" "1 \<le> s" "s \<le> 25"
  shows "caesar x ps =
           Inr (map (\<lambda>c. if isLetter c
                          then fromCharCode (letterBase c + jsRem (charCode c - letterBase c + s) 26)
                          else c) x)"
    and "caesarDecrypt x ps =
           Inr (map (\<lambda>c. if isLetter c
                          then fromCharCode
                                 (letterBase c + jsRem (charCode c - letterBase c - s + 26) 26)
                          else c) x)"
  using assms by (simp_all add: caesar_def caesarDecrypt_def replaceLetters_def)

lemma caesar_out_of_range:
  assumes "parseIntOr (getParam ps ''shift'') 3 = s" "s < 1 \<or> 25 < s"
  shows "caesar x ps = Inl (Error (js ''Shift must be between 1 and 25''))"
    and "caesarDecrypt x ps = Inl (Error (js ''Shift must be between 1 and 25''))"
  using assms by (auto simp: caesar_def caesarDecrypt_def)

lemma parseIntOr_never_zero: "parseIntOr v 3 \<noteq> 0"
  by (simp add: parseIntOr_def split: option.splits)

lemma caesarDecrypt_caesar:
  assumes "parseIntOr (getParam ps ''shift'') 3 = s" "1 \<le> s" "s \<le> 25"
  shows "\<exists>y. caesar x ps = Inr y \<and> caesarDecrypt y ps = Inr x \<and> length y = length x"
proof -
  let ?enc = "\<lambda>c. if isLetter c
                   then fromCharCode (letterBase c + jsRem (charCode c - letterBase c + s) 26)
                   else c"
  let ?dec = "\<lambda>c. if isLetter c
                   then fromCharCode (letterBase c + jsRem (charCode c - letterBase c - s + 26) 26)
                   else c"
  have inv: "?dec (?enc c) = c" for c
    using unshift_letter [OF _ assms(2,3) refl, of c] by (cases "isLetter c") simp_all
  then have "map ?dec (map ?enc x) = x"
    by (induction x) simp_all
  then show ?thesis
    using caesar_in_range [OF assms] by simp
qed


subsection \<open>Substitution alphabets\<close>

text \<open>
  What substitution does reject: an alphabet whose uppercase form has not 26 code units,
  or holds a character twice.
\<close>

lemma substitution_rejects:
  assumes "truthy v" "getParam ps ''alphabet'' = v"
    and "length (toUpperCase P (toString v)) \<noteq> 26
         \<or> length (remdups (codePoints (toUpperCase P (toString v)))) \<noteq> 26"
  shows "substitution P x ps = Inl (Error (js ''Alphabet must contain exactly 26 unique letters''))"
  using assms by (auto simp: substitution_def Let_def)

end
